theory Spec2Isabelle
  imports Main "HOL-Library.Sublist" "HOL-Library.AList"
begin

section \<open>Geometry types\<close>

text \<open>
  Modelled from the spec: the module \<^verbatim>\<open>receptivefield.types\<close> (ImageShape, GridShape,
  GridPoint and the method \<^verbatim>\<open>replace\<close>) is imported by \<^verbatim>\<open>tensorflow.py\<close> but is not among
  the sources. The records below follow section 3 of the specification: an ImageShape is
  \<open>{height, width, channels}\<close>, a GridShape is \<open>{n, height, width, channels}\<close>, a GridPoint
  is \<open>{x, y}\<close>. The field order is the positional order of the tuple, which is what
  \<^verbatim>\<open>GridShape(*shape)\<close> and \<^verbatim>\<open>np.zeros(shape=...)\<close> depend on. The fields carry a prefix so
  that short names such as \<open>n\<close>, \<open>x\<close> and \<open>y\<close> stay free for variables.
\<close>

record ImageShape =
  is_height :: int
  is_width :: int
  is_channels :: int

record GridShape =
  gs_n :: int
  gs_height :: int
  gs_width :: int
  gs_channels :: int

record GridPoint =
  gp_x :: int
  gp_y :: int

text \<open>
  Modelled from the spec: \<^verbatim>\<open>shape.replace(n=v)\<close>, the "replace field" operation of section
  4.1, which returns a copy of the shape with the batch field set and leaves the original
  untouched.
\<close>

definition replace_n :: "GridShape \<Rightarrow> int \<Rightarrow> GridShape" where
  "replace_n s v = s\<lparr>gs_n := v\<rparr>"

section \<open>Exceptions\<close>

text \<open>
  \<^verbatim>\<open>tensorflow.py\<close> has no \<^verbatim>\<open>raise\<close> of its own: every failure is an exception of Python,
  numpy, TensorFlow or the user's model function that the code lets through. The last
  constructor is the error the specification names; no path of the model produces it.
\<close>

datatype py_error =
    IndexError
  | ValueError
  | TypeError
  | KeyError string
  | RuntimeError
  | AttributeError
  | ModelFuncError
  | BackendError
  | TensorResolutionError

section \<open>numpy arrays of rank four\<close>

text \<open>
  An array keeps its shape next to its data, as numpy does, so that an array with an empty
  axis still knows its other axes. The element type is a parameter: the probing code only
  stores zero and the given intensity and does no arithmetic on them.
\<close>

record 'a ndarray =
  nd_shape :: "nat list"
  nd_data :: "'a list list list list"

text \<open>\<^verbatim>\<open>np.zeros(shape=s)\<close> for a GridShape \<open>s\<close>; a negative dimension raises ValueError.\<close>

definition np_zeros :: "GridShape \<Rightarrow> py_error + ('a::zero) ndarray" where
  "np_zeros s =
     (if gs_n s < 0 \<or> gs_height s < 0 \<or> gs_width s < 0 \<or> gs_channels s < 0
      then Inl ValueError
      else Inr \<lparr>nd_shape = [nat (gs_n s), nat (gs_height s), nat (gs_width s), nat (gs_channels s)],
                nd_data = replicate (nat (gs_n s)) (replicate (nat (gs_height s))
                            (replicate (nat (gs_width s)) (replicate (nat (gs_channels s)) 0)))\<rparr>)"

text \<open>
  An integer index into an axis of the given size: a negative index counts from the end,
  an index outside \<open>[-size, size)\<close> is an IndexError (here \<open>None\<close>).
\<close>

definition py_index :: "nat \<Rightarrow> int \<Rightarrow> nat option" where
  "py_index sz i =
     (if 0 \<le> i \<and> i < int sz then Some (nat i)
      else if - int sz \<le> i \<and> i < 0 then Some (nat (i + int sz))
      else None)"

text \<open>The assignment \<^verbatim>\<open>a[:, y, x, 0] = v\<close> of line 70.\<close>

definition assign_point :: "'a ndarray \<Rightarrow> int \<Rightarrow> int \<Rightarrow> 'a \<Rightarrow> py_error + 'a ndarray" where
  "assign_point a y x v =
     (case nd_shape a of
        [n, h, w, c] \<Rightarrow>
          (case (py_index h y, py_index w x, py_index c 0) of
             (Some yi, Some xi, Some ki) \<Rightarrow>
               Inr (a\<lparr>nd_data :=
                      map (\<lambda>img. img[yi := (img ! yi)[xi := (img ! yi ! xi)[ki := v]]])
                          (nd_data a)\<rparr>)
           | _ \<Rightarrow> Inl IndexError)
      | _ \<Rightarrow> Inl IndexError)"

section \<open>Probing: \<^verbatim>\<open>_get_gradient_from_grid_points\<close>\<close>

text \<open>
  The fields of the base class \<^verbatim>\<open>ReceptiveField\<close> that the probing function reads. The base
  class itself (\<^verbatim>\<open>receptivefield.base\<close>) is not among the sources, so the attributes
  \<^verbatim>\<open>_input_shape\<close>, \<^verbatim>\<open>_output_shapes\<close>, \<^verbatim>\<open>num_feature_maps\<close> and \<^verbatim>\<open>_gradient_function\<close> are
  taken as given values. The record is extended by the two estimator classes below.
\<close>

record ('a, 'r) ReceptiveField =
  rf_input_shape :: GridShape
  rf_output_shapes :: "GridShape list"
  rf_num_feature_maps :: int
  rf_gradient_function :: "'a ndarray list \<Rightarrow> 'a ndarray \<Rightarrow> 'r"

text \<open>
  The loop of lines 66 to 71 over \<^verbatim>\<open>range(num_feature_maps)\<close>; the last argument is the list
  \<^verbatim>\<open>output_feature_maps\<close> built so far. Reading \<^verbatim>\<open>_output_shapes[fm]\<close> or \<^verbatim>\<open>points[fm]\<close> past
  the end of the list is an IndexError.
\<close>

fun output_feature_maps_loop ::
  "GridShape list \<Rightarrow> GridPoint list \<Rightarrow> 'a \<Rightarrow> nat list \<Rightarrow> ('a::zero) ndarray list
     \<Rightarrow> py_error + 'a ndarray list" where
  "output_feature_maps_loop shapes points intensity [] output_feature_maps =
     Inr output_feature_maps"
| "output_feature_maps_loop shapes points intensity (fm # fms) output_feature_maps =
     (if length shapes \<le> fm then Inl IndexError
      else case np_zeros (replace_n (shapes ! fm) 1) of
        Inl e \<Rightarrow> Inl e
      | Inr output_feature_map \<Rightarrow>
          if length points \<le> fm then Inl IndexError
          else case assign_point output_feature_map (gp_y (points ! fm)) (gp_x (points ! fm))
                      intensity of
            Inl e \<Rightarrow> Inl e
          | Inr output_feature_map' \<Rightarrow>
              output_feature_maps_loop shapes points intensity fms
                (output_feature_maps @ [output_feature_map']))"

definition get_gradient_from_grid_points ::
  "('a::zero, 'r, 'm) ReceptiveField_scheme \<Rightarrow> GridPoint list \<Rightarrow> 'a \<Rightarrow> py_error + 'r" where
  "get_gradient_from_grid_points rf_extractor points intensity =
     (let input_shape = replace_n (rf_input_shape rf_extractor) 1 in
      case output_feature_maps_loop (rf_output_shapes rf_extractor) points intensity
             [0 ..< nat (rf_num_feature_maps rf_extractor)] [] of
        Inl e \<Rightarrow> Inl e
      | Inr output_feature_maps \<Rightarrow>
          (case np_zeros input_shape of
             Inl e \<Rightarrow> Inl e
           | Inr zeros \<Rightarrow> Inr (rf_gradient_function rf_extractor output_feature_maps zeros)))"

section \<open>The TensorFlow graph\<close>

text \<open>
  The code builds a TensorFlow 1 graph: every call such as \<^verbatim>\<open>tf.reduce_mean\<close> or
  \<^verbatim>\<open>tf.gradients\<close> adds a node to the default graph and returns a handle to it, and nothing
  is computed before \<^verbatim>\<open>Session.run\<close>. A tensor is therefore the term of the operations that
  define it. Each node records the graph it belongs to, which is what TensorFlow checks
  when a tensor is fed to or fetched from a session.

  A static shape is \<open>None\<close> when the rank is unknown; a dimension is \<open>None\<close> when it is
  unknown.
\<close>

type_synonym graph_id = nat
type_synonym tensor_shape = "int option list option"

datatype tf_tensor =
    ModelTensor graph_id string tensor_shape
      \<comment> \<open>output 0 of a named operation built by the user's model function\<close>
  | Placeholder graph_id string nat "int list"
      \<comment> \<open>\<^verbatim>\<open>tf.placeholder(tf.float32, shape, name)\<close>; the number is the suffix that makes
          the requested name unique in the graph (\<^verbatim>\<open>grid\<close>, \<^verbatim>\<open>grid_1\<close>, ...)\<close>
  | ReduceMean graph_id tf_tensor "int option" bool
      \<comment> \<open>\<^verbatim>\<open>tf.reduce_mean(t, axis, keep_dims)\<close>; axis \<open>None\<close> reduces every axis\<close>
  | Multiply graph_id tf_tensor tf_tensor
  | Gradient graph_id tf_tensor tf_tensor
      \<comment> \<open>the entry for \<open>x\<close> of \<^verbatim>\<open>tf.gradients(ys, x)\<close>\<close>
  | VariablesInitializer graph_id
      \<comment> \<open>the operation \<^verbatim>\<open>tf.global_variables_initializer()\<close>\<close>

fun tensor_graph :: "tf_tensor \<Rightarrow> graph_id" where
  "tensor_graph (ModelTensor g _ _) = g"
| "tensor_graph (Placeholder g _ _ _) = g"
| "tensor_graph (ReduceMean g _ _ _) = g"
| "tensor_graph (Multiply g _ _) = g"
| "tensor_graph (Gradient g _ _) = g"
| "tensor_graph (VariablesInitializer g) = g"

text \<open>Broadcasting of two static shapes, aligned at the last axis.\<close>

fun broadcast_dim :: "int option \<Rightarrow> int option \<Rightarrow> int option" where
  "broadcast_dim (Some a) (Some b) = (if a = 1 then Some b else Some a)"
| "broadcast_dim None (Some b) = (if b = 1 then None else Some b)"
| "broadcast_dim (Some a) None = (if a = 1 then None else Some a)"
| "broadcast_dim None None = None"

fun broadcast_rev :: "int option list \<Rightarrow> int option list \<Rightarrow> int option list" where
  "broadcast_rev [] ys = ys"
| "broadcast_rev xs [] = xs"
| "broadcast_rev (x # xs) (y # ys) = broadcast_dim x y # broadcast_rev xs ys"

text \<open>The static shape TensorFlow infers for a node (\<^verbatim>\<open>tensor.get_shape()\<close>).\<close>

fun static_shape :: "tf_tensor \<Rightarrow> tensor_shape" where
  "static_shape (ModelTensor g name sh) = sh"
| "static_shape (Placeholder g name k dims) = Some (map Some dims)"
| "static_shape (ReduceMean g t None keep) =
     (if keep then map_option (map (\<lambda>_. Some 1)) (static_shape t) else Some [])"
| "static_shape (ReduceMean g t (Some axis) keep) =
     (case static_shape t of
        None \<Rightarrow> None
      | Some ds \<Rightarrow>
          (case py_index (length ds) axis of
             None \<Rightarrow> None
           | Some i \<Rightarrow> Some (if keep then ds[i := Some 1] else take i ds @ drop (Suc i) ds)))"
| "static_shape (Multiply g a b) =
     (case (static_shape a, static_shape b) of
        (Some xs, Some ys) \<Rightarrow> Some (rev (broadcast_rev (rev xs) (rev ys)))
      | _ \<Rightarrow> None)"
| "static_shape (Gradient g ys x) = static_shape x"
| "static_shape (VariablesInitializer g) = None"

text \<open>
  \<^verbatim>\<open>_get_tensor_shape\<close>, lines 14 to 23: \<^verbatim>\<open>list(map(int, tensor.get_shape()))\<close>. Iterating a
  shape of unknown rank raises ValueError, \<^verbatim>\<open>int\<close> of an unknown dimension raises TypeError.
\<close>

definition get_tensor_shape :: "tf_tensor \<Rightarrow> py_error + int list" where
  "get_tensor_shape tensor =
     (case static_shape tensor of
        None \<Rightarrow> Inl ValueError
      | Some ds \<Rightarrow> if list_all (\<lambda>d. d \<noteq> None) ds then Inr (map the ds) else Inl TypeError)"

text \<open>
  The graph-building calls. The first argument is the default graph, which in the source
  is the graph of the enclosing \<^verbatim>\<open>with tf.Graph().as_default()\<close>. The checks TensorFlow
  makes when a node is built (element types, shapes that broadcast) are not modelled: a
  call always returns its node, so the model succeeds wherever the code does.
\<close>

definition tf_reduce_mean :: "graph_id \<Rightarrow> tf_tensor \<Rightarrow> int option \<Rightarrow> bool \<Rightarrow> tf_tensor" where
  "tf_reduce_mean g t axis keep_dims = ReduceMean g t axis keep_dims"

definition tf_multiply :: "graph_id \<Rightarrow> tf_tensor \<Rightarrow> tf_tensor \<Rightarrow> tf_tensor" where
  "tf_multiply g a b = Multiply g a b"

definition tf_gradients :: "graph_id \<Rightarrow> tf_tensor \<Rightarrow> tf_tensor \<Rightarrow> tf_tensor list" where
  "tf_gradients g ys x = [Gradient g ys x]"

definition tf_placeholder :: "graph_id \<Rightarrow> int list \<Rightarrow> string \<Rightarrow> nat \<Rightarrow> tf_tensor" where
  "tf_placeholder g shape name k = Placeholder g name k shape"

text \<open>\<^verbatim>\<open>_define_fm_gradient\<close>, lines 26 to 44.\<close>

definition define_fm_gradient :: "graph_id \<Rightarrow> tf_tensor \<Rightarrow> tf_tensor \<Rightarrow> tf_tensor \<Rightarrow> tf_tensor" where
  "define_fm_gradient g input_tensor output_tensor receptive_field_mask =
     (let x = tf_reduce_mean g output_tensor (Some (- 1)) True;
          fake_loss = tf_multiply g x receptive_field_mask;
          fake_loss = tf_reduce_mean g fake_loss None False
      in tf_gradients g fake_loss input_tensor ! 0)"

section \<open>Sessions\<close>

text \<open>
  The state of the TensorFlow runtime is the history of the calls that reached it. A graph
  or session is identified by the length of the history at its creation. A session is
  closed once its \<^verbatim>\<open>close\<close> is in the history, and it never reopens.
\<close>

datatype tf_event =
    EvResetDefaultGraph
  | EvGraph graph_id
  | EvSession nat graph_id
  | EvClose nat
  | EvRun nat "tf_tensor list"

type_synonym tf_world = "tf_event list"

record tf_session =
  sess_id :: nat
  sess_graph :: graph_id

definition tf_reset_default_graph :: "tf_world \<Rightarrow> tf_world" where
  "tf_reset_default_graph w = w @ [EvResetDefaultGraph]"

definition tf_Graph :: "tf_world \<Rightarrow> graph_id \<times> tf_world" where
  "tf_Graph w = (length w, w @ [EvGraph (length w)])"

definition tf_Session :: "graph_id \<Rightarrow> tf_world \<Rightarrow> tf_session \<times> tf_world" where
  "tf_Session g w = (\<lparr>sess_id = length w, sess_graph = g\<rparr>, w @ [EvSession (length w) g])"

definition session_close :: "tf_session \<Rightarrow> tf_world \<Rightarrow> tf_world" where
  "session_close s w = w @ [EvClose (sess_id s)]"

definition closed :: "tf_world \<Rightarrow> nat \<Rightarrow> bool" where
  "closed w sid = (EvClose sid \<in> set w)"

fun created_sessions :: "tf_world \<Rightarrow> nat list" where
  "created_sessions [] = []"
| "created_sessions (EvSession sid g # w) = sid # created_sessions w"
| "created_sessions (_ # w) = created_sessions w"

definition live_sessions :: "tf_world \<Rightarrow> nat list" where
  "live_sessions w = filter (\<lambda>sid. \<not> closed w sid) (created_sessions w)"

text \<open>
  The numerical engine is outside the code: \<open>backend feeds t\<close> is the value TensorFlow
  computes for the fetch \<open>t\<close> under the feeds, or the error it raises.
\<close>

type_synonym 'v backend = "(tf_tensor \<times> 'v) list \<Rightarrow> tf_tensor \<Rightarrow> py_error + 'v"

fun run_fetches :: "'v backend \<Rightarrow> (tf_tensor \<times> 'v) list \<Rightarrow> tf_tensor list \<Rightarrow> py_error + 'v list" where
  "run_fetches backend feeds [] = Inr []"
| "run_fetches backend feeds (t # ts) =
     (case backend feeds t of
        Inl e \<Rightarrow> Inl e
      | Inr v \<Rightarrow> (case run_fetches backend feeds ts of Inl e \<Rightarrow> Inl e | Inr vs \<Rightarrow> Inr (v # vs)))"

text \<open>
  \<^verbatim>\<open>session.run(fetches, feed_dict)\<close>. TensorFlow refuses a closed session (RuntimeError),
  then a feed key that is not an element of the session's graph (TypeError), then a fetch
  that is not (ValueError); only then is the engine invoked, once for all fetches.
\<close>

definition session_run ::
  "'v backend \<Rightarrow> tf_session \<Rightarrow> tf_tensor list \<Rightarrow> (tf_tensor \<times> 'v) list \<Rightarrow> tf_world
     \<Rightarrow> tf_world \<times> (py_error + 'v list)" where
  "session_run backend s fetches feed_dict w =
     (if closed w (sess_id s) then (w, Inl RuntimeError)
      else if \<not> list_all (\<lambda>(k, v). tensor_graph k = sess_graph s) feed_dict then (w, Inl TypeError)
      else if \<not> list_all (\<lambda>t. tensor_graph t = sess_graph s) fetches then (w, Inl ValueError)
      else (w @ [EvRun (sess_id s) fetches], run_fetches backend feed_dict fetches))"

section \<open>The gradient function\<close>

text \<open>
  \<^verbatim>\<open>gradient_fn\<close> (lines 152 to 158 and 283 to 291) is a closure over the local variables
  \<^verbatim>\<open>receptive_field_masks\<close>, \<^verbatim>\<open>input_tensor\<close> and \<^verbatim>\<open>grads\<close> and over \<^verbatim>\<open>self\<close>. It does not
  capture a session: it reads \<^verbatim>\<open>self._session\<close> when it is called, so the session is an
  argument here.
\<close>

record gradient_closure =
  cl_input_tensor :: tf_tensor
  cl_receptive_field_masks :: "tf_tensor list"
  cl_grads :: "tf_tensor list"

definition gradient_fn ::
  "'v backend \<Rightarrow> gradient_closure \<Rightarrow> tf_session option \<Rightarrow> 'v list \<Rightarrow> 'v \<Rightarrow> tf_world
     \<Rightarrow> tf_world \<times> (py_error + 'v list)" where
  "gradient_fn backend cl self_session fm_masks input_image w =
     (let fetch_dict = fold (\<lambda>(mask_t, mask_np) d. AList.update mask_t mask_np d)
                         (zip (cl_receptive_field_masks cl) fm_masks) [];
          fetch_dict = AList.update (cl_input_tensor cl) input_image fetch_dict
      in case self_session of
           None \<Rightarrow> (w, Inl AttributeError)
         | Some s \<Rightarrow> session_run backend s (cl_grads cl) fetch_dict w)"

section \<open>Preparing the gradient function\<close>

text \<open>
  Lines 109 to 111 and 244 to 246: a session left by an earlier call is closed, after the
  default graph is reset. Both calls are taken to return normally.
\<close>

definition release_session :: "tf_session option \<Rightarrow> tf_world \<Rightarrow> tf_world" where
  "release_session self_session w =
     (case self_session of
        None \<Rightarrow> w
      | Some s \<Rightarrow> session_close s (tf_reset_default_graph w))"

text \<open>
  The body of the loop over the output tensors, lines 131 to 144 and 262 to 275, which is
  the same text in both classes. The three lists are \<^verbatim>\<open>grads\<close>,
  \<^verbatim>\<open>receptive_field_masks\<close> and \<^verbatim>\<open>output_shapes\<close>. Reading \<^verbatim>\<open>output_shape[1]\<close> or
  \<^verbatim>\<open>output_shape[2]\<close> of a shape of rank below three is an IndexError.
\<close>

type_synonym shape4 = "int \<times> int \<times> int \<times> int"

definition tuple_list :: "shape4 \<Rightarrow> int list" where
  "tuple_list t = (case t of (a, b, c, d) \<Rightarrow> [a, b, c, d])"

type_synonym loop_state = "tf_tensor list \<times> tf_tensor list \<times> shape4 list"

definition feature_map_step ::
  "graph_id \<Rightarrow> tf_tensor \<Rightarrow> tf_tensor \<Rightarrow> loop_state \<Rightarrow> py_error + loop_state" where
  "feature_map_step graph input_tensor output_tensor st =
     (case st of (grads, receptive_field_masks, output_shapes) \<Rightarrow>
        (case get_tensor_shape output_tensor of
           Inl e \<Rightarrow> Inl e
         | Inr output_shape \<Rightarrow>
             if length output_shape < 3 then Inl IndexError
             else
               let output_shape' = (1, output_shape ! 1, output_shape ! 2, 1);
                   receptive_field_mask =
                     tf_placeholder graph (tuple_list output_shape') ''grid''
                       (length receptive_field_masks);
                   grad = define_fm_gradient graph input_tensor output_tensor receptive_field_mask
               in Inr (grads @ [grad], receptive_field_masks @ [receptive_field_mask],
                       output_shapes @ [output_shape'])))"

text \<open>\<^verbatim>\<open>GridShape(*shape)\<close>: a list that does not have four entries is a TypeError.\<close>

definition GridShape_of_list :: "int list \<Rightarrow> py_error + GridShape" where
  "GridShape_of_list shape =
     (case shape of
        [a, b, c, d] \<Rightarrow> Inr \<lparr>gs_n = a, gs_height = b, gs_width = c, gs_channels = d\<rparr>
      | _ \<Rightarrow> Inl TypeError)"

definition GridShape_of_tuple :: "shape4 \<Rightarrow> GridShape" where
  "GridShape_of_tuple t =
     (case t of (a, b, c, d) \<Rightarrow> \<lparr>gs_n = a, gs_height = b, gs_width = c, gs_channels = d\<rparr>)"

text \<open>
  Lines 149 to 164 and 280 to 297: the session is created and stored in \<^verbatim>\<open>self\<close>, the
  variables are initialised, and the triple is returned. The result carries the new
  value of \<^verbatim>\<open>self._session\<close> also when a later step raises.
\<close>

type_synonym prepared = "gradient_closure \<times> GridShape \<times> GridShape list"

definition open_session_and_return ::
  "'v backend \<Rightarrow> graph_id \<Rightarrow> tf_tensor \<Rightarrow> int list \<Rightarrow> loop_state \<Rightarrow> tf_world
     \<Rightarrow> tf_world \<times> tf_session \<times> (py_error + prepared)" where
  "open_session_and_return backend graph input_tensor input_shape st w =
     (case st of (grads, receptive_field_masks, output_shapes) \<Rightarrow>
        (case tf_Session graph w of (sess, w1) \<Rightarrow>
           (case session_run backend sess [VariablesInitializer graph] [] w1 of
              (w2, Inl e) \<Rightarrow> (w2, sess, Inl e)
            | (w2, Inr _) \<Rightarrow>
                (case GridShape_of_list input_shape of
                   Inl e \<Rightarrow> (w2, sess, Inl e)
                 | Inr gs \<Rightarrow>
                     (w2, sess,
                      Inr (\<lparr>cl_input_tensor = input_tensor,
                            cl_receptive_field_masks = receptive_field_masks,
                            cl_grads = grads\<rparr>,
                           gs, map GridShape_of_tuple output_shapes))))))"

subsection \<open>\<^verbatim>\<open>TFReceptiveField\<close>\<close>

text \<open>
  The model function of this class builds its graph as a side effect; what the code reads
  of it afterwards is, for an operation name, the static shapes of the operation's
  outputs. The model function may raise.
\<close>

type_synonym graph_ops = "string \<Rightarrow> tensor_shape list option"

record ('a, 'r) TFReceptiveField = "('a, 'r) ReceptiveField" +
  tfrf_session :: "tf_session option"
  tfrf_model_func :: "ImageShape \<Rightarrow> py_error + graph_ops"

text \<open>
  \<^verbatim>\<open>graph.get_operation_by_name(name).outputs[0]\<close>. A name with a colon denotes a tensor,
  not an operation (ValueError); a name that is not in the graph is a KeyError; an
  operation without outputs has no \<^verbatim>\<open>outputs[0]\<close> (IndexError).
\<close>

definition get_operation_output0 :: "graph_ops \<Rightarrow> graph_id \<Rightarrow> string \<Rightarrow> py_error + tf_tensor" where
  "get_operation_output0 ops graph name =
     (if CHR '':'' \<in> set name then Inl ValueError
      else case ops name of
        None \<Rightarrow> Inl (KeyError name)
      | Some [] \<Rightarrow> Inl IndexError
      | Some (sh # _) \<Rightarrow> Inr (ModelTensor graph name sh))"

text \<open>The loop of lines 128 to 144 over the names of the output tensors.\<close>

fun named_outputs_loop ::
  "graph_id \<Rightarrow> graph_ops \<Rightarrow> tf_tensor \<Rightarrow> string list \<Rightarrow> loop_state \<Rightarrow> py_error + loop_state" where
  "named_outputs_loop graph ops input_tensor [] st = Inr st"
| "named_outputs_loop graph ops input_tensor (output_tensor # rest) st =
     (case get_operation_output0 ops graph output_tensor of
        Inl e \<Rightarrow> Inl e
      | Inr output_tensor' \<Rightarrow>
          (case feature_map_step graph input_tensor output_tensor' st of
             Inl e \<Rightarrow> Inl e
           | Inr st' \<Rightarrow> named_outputs_loop graph ops input_tensor rest st'))"

text \<open>\<^verbatim>\<open>TFReceptiveField._prepare_gradient_func\<close>, lines 87 to 164.\<close>

definition TFReceptiveField_prepare_gradient_func ::
  "'v backend \<Rightarrow> ('a, 'r) TFReceptiveField \<Rightarrow> ImageShape \<Rightarrow> string \<Rightarrow> string list \<Rightarrow> tf_world
     \<Rightarrow> tf_world \<times> ('a, 'r) TFReceptiveField \<times> (py_error + prepared)" where
  "TFReceptiveField_prepare_gradient_func backend self input_shape input_tensor output_tensors w =
     (let w1 = release_session (tfrf_session self) w in
      case tf_Graph w1 of (graph, w2) \<Rightarrow>
        (case tfrf_model_func self input_shape of
           Inl e \<Rightarrow> (w2, self, Inl e)
         | Inr ops \<Rightarrow>
             (case get_operation_output0 ops graph input_tensor of
                Inl e \<Rightarrow> (w2, self, Inl e)
              | Inr input_tensor' \<Rightarrow>
                  (case get_tensor_shape input_tensor' of
                     Inl e \<Rightarrow> (w2, self, Inl e)
                   | Inr input_shape' \<Rightarrow>
                       (case named_outputs_loop graph ops input_tensor' output_tensors ([], [], []) of
                          Inl e \<Rightarrow> (w2, self, Inl e)
                        | Inr st \<Rightarrow>
                            (case open_session_and_return backend graph input_tensor' input_shape' st w2 of
                               (w3, sess, r) \<Rightarrow> (w3, self\<lparr>tfrf_session := Some sess\<rparr>, r)))))))"

subsection \<open>\<^verbatim>\<open>TFFeatureMapsReceptiveField\<close>\<close>

text \<open>
  The model function of this class takes the input placeholder and returns the list of
  feature-map tensors. It may raise.
\<close>

record ('a, 'r) TFFeatureMapsReceptiveField = "('a, 'r) ReceptiveField" +
  tffm_session :: "tf_session option"
  tffm_model_func :: "tf_tensor \<Rightarrow> py_error + tf_tensor list"

text \<open>The loop of lines 261 to 275 over the feature maps.\<close>

fun feature_maps_loop ::
  "graph_id \<Rightarrow> tf_tensor \<Rightarrow> tf_tensor list \<Rightarrow> loop_state \<Rightarrow> py_error + loop_state" where
  "feature_maps_loop graph input_tensor [] st = Inr st"
| "feature_maps_loop graph input_tensor (output_tensor # rest) st =
     (case feature_map_step graph input_tensor output_tensor st of
        Inl e \<Rightarrow> Inl e
      | Inr st' \<Rightarrow> feature_maps_loop graph input_tensor rest st')"

text \<open>\<^verbatim>\<open>TFFeatureMapsReceptiveField._prepare_gradient_func\<close>, lines 224 to 297.\<close>

definition TFFeatureMapsReceptiveField_prepare_gradient_func ::
  "'v backend \<Rightarrow> ('a, 'r) TFFeatureMapsReceptiveField \<Rightarrow> ImageShape \<Rightarrow> tf_world
     \<Rightarrow> tf_world \<times> ('a, 'r) TFFeatureMapsReceptiveField \<times> (py_error + prepared)" where
  "TFFeatureMapsReceptiveField_prepare_gradient_func backend self input_shape w =
     (let w1 = release_session (tffm_session self) w in
      case tf_Graph w1 of (graph, w2) \<Rightarrow>
        (let input_tensor =
               tf_placeholder graph
                 [1, is_height input_shape, is_width input_shape, is_channels input_shape]
                 ''input_image'' 0
         in case get_tensor_shape input_tensor of
              Inl e \<Rightarrow> (w2, self, Inl e)
            | Inr input_shape' \<Rightarrow>
                (case tffm_model_func self input_tensor of
                   Inl e \<Rightarrow> (w2, self, Inl e)
                 | Inr feature_maps \<Rightarrow>
                     (case feature_maps_loop graph input_tensor feature_maps ([], [], []) of
                        Inl e \<Rightarrow> (w2, self, Inl e)
                      | Inr st \<Rightarrow>
                          (case open_session_and_return backend graph input_tensor input_shape' st w2 of
                             (w3, sess, r) \<Rightarrow> (w3, self\<lparr>tffm_session := Some sess\<rparr>, r))))))"

section \<open>Clients of an estimator\<close>

text \<open>
  A client of one estimator object calls its methods one after the other: it prepares a
  gradient function, evaluates a gradient function it holds, prepares again. The functions
  below run such a sequence of calls on the object and the runtime, dropping the results;
  they are used to state what holds of every history the code can produce.
\<close>

datatype 'v tfrf_call =
    CallPrepare ImageShape string "string list"
  | CallGradientFn gradient_closure "'v list" 'v

fun tfrf_calls ::
  "'v backend \<Rightarrow> 'v tfrf_call list \<Rightarrow> tf_world \<times> ('a, 'r) TFReceptiveField
     \<Rightarrow> tf_world \<times> ('a, 'r) TFReceptiveField" where
  "tfrf_calls backend [] st = st"
| "tfrf_calls backend (CallPrepare input_shape input_tensor output_tensors # cs) (w, self) =
     (case TFReceptiveField_prepare_gradient_func backend self input_shape input_tensor
             output_tensors w of
        (w', self', r) \<Rightarrow> tfrf_calls backend cs (w', self'))"
| "tfrf_calls backend (CallGradientFn cl fm_masks input_image # cs) (w, self) =
     (case gradient_fn backend cl (tfrf_session self) fm_masks input_image w of
        (w', r) \<Rightarrow> tfrf_calls backend cs (w', self))"

datatype 'v tffm_call =
    CallPrepareFM ImageShape
  | CallGradientFnFM gradient_closure "'v list" 'v

fun tffm_calls ::
  "'v backend \<Rightarrow> 'v tffm_call list \<Rightarrow> tf_world \<times> ('a, 'r) TFFeatureMapsReceptiveField
     \<Rightarrow> tf_world \<times> ('a, 'r) TFFeatureMapsReceptiveField" where
  "tffm_calls backend [] st = st"
| "tffm_calls backend (CallPrepareFM input_shape # cs) (w, self) =
     (case TFFeatureMapsReceptiveField_prepare_gradient_func backend self input_shape w of
        (w', self', r) \<Rightarrow> tffm_calls backend cs (w', self'))"
| "tffm_calls backend (CallGradientFnFM cl fm_masks input_image # cs) (w, self) =
     (case gradient_fn backend cl (tffm_session self) fm_masks input_image w of
        (w', r) \<Rightarrow> tffm_calls backend cs (w', self))"

section \<open>Notions of the specification\<close>

text \<open>
  The array that is zero everywhere except for the value \<open>v\<close> at row \<open>yi\<close>, column \<open>xi\<close>,
  channel 0: the impulse mask of section 4.3 of the specification, for a feature map of
  height \<open>h\<close>, width \<open>w\<close> and \<open>c\<close> channels, with batch size one.
\<close>

definition impulse_at :: "nat \<Rightarrow> nat \<Rightarrow> nat \<Rightarrow> nat \<Rightarrow> nat \<Rightarrow> 'a \<Rightarrow> ('a::zero) ndarray" where
  "impulse_at h w c yi xi v =
     \<lparr>nd_shape = [1, h, w, c],
      nd_data = [map (\<lambda>i. map (\<lambda>j. map (\<lambda>k. if i = yi \<and> j = xi \<and> k = 0 then v else 0) [0 ..< c])
                              [0 ..< w]) [0 ..< h]]\<rparr>"

definition all_zero :: "('a::zero) ndarray \<Rightarrow> bool" where
  "all_zero a = list_all (list_all (list_all (list_all (\<lambda>v. v = 0)))) (nd_data a)"

text \<open>
  The reading of the specification under which only the mask of feature map \<open>fm\<close> carries
  an impulse: every other mask of the list is all-zero.
\<close>

definition impulse_for_that_map_only :: "('a::zero) ndarray list \<Rightarrow> nat \<Rightarrow> bool" where
  "impulse_for_that_map_only ms fm = list_all (\<lambda>j. j = fm \<or> all_zero (ms ! j)) [0 ..< length ms]"

text \<open>The all-zeros image of shape \<^verbatim>\<open>s.replace(n=1)\<close>.\<close>

definition zero_image :: "GridShape \<Rightarrow> ('a::zero) ndarray" where
  "zero_image s =
     \<lparr>nd_shape = [1, nat (gs_height s), nat (gs_width s), nat (gs_channels s)],
      nd_data = [replicate (nat (gs_height s)) (replicate (nat (gs_width s))
                   (replicate (nat (gs_channels s)) 0))]\<rparr>"

text \<open>
  At every moment of the history at most one session is live: every prefix of the history
  has at most one session that is created and not closed.
\<close>

definition at_most_one_live :: "tf_world \<Rightarrow> bool" where
  "at_most_one_live w = list_all (\<lambda>p. length (live_sessions p) \<le> 1) (prefixes w)"

text \<open>
  Whenever a session is created, every session created before it has been closed.
\<close>

definition closed_before_created :: "tf_world \<Rightarrow> bool" where
  "closed_before_created w =
     list_all (\<lambda>i. case w ! i of EvSession s g \<Rightarrow> live_sessions (take i w) = [] | _ \<Rightarrow> True)
       [0 ..< length w]"



section \<open>Invariants used in the proofs\<close>

text \<open>
  What a call of \<^verbatim>\<open>_prepare_gradient_func\<close> does to the history and to \<^verbatim>\<open>self._session\<close>,
  whatever its result: it releases the old session and creates a graph; then either it
  stops there and leaves \<^verbatim>\<open>self._session\<close> as it was, or it creates a session on the new
  graph, stores it, and possibly runs the initialiser.
\<close>

definition prepare_outcome ::
  "tf_session option \<Rightarrow> tf_world \<Rightarrow> tf_world \<Rightarrow> tf_session option \<Rightarrow> bool" where
  "prepare_outcome s w w' s' =
     (let w1 = release_session s w; g = length w1 in
        (w' = w1 @ [EvGraph g] \<and> s' = s) \<or>
        (s' = Some \<lparr>sess_id = Suc g, sess_graph = g\<rparr> \<and>
         (w' = w1 @ [EvGraph g, EvSession (Suc g) g] \<or>
          w' = w1 @ [EvGraph g, EvSession (Suc g) g, EvRun (Suc g) [VariablesInitializer g]])))"

text \<open>
  The invariant of a runtime used by one estimator: identifiers of closed sessions are
  older than the history is long, the only session that can be live is the one the
  estimator holds, and the two properties above hold of the history.
\<close>

definition owner_inv :: "tf_world \<Rightarrow> tf_session option \<Rightarrow> bool" where
  "owner_inv w s =
     ((\<forall>sid. EvClose sid \<in> set w \<longrightarrow> sid < length w) \<and>
      (live_sessions w = [] \<or> (\<exists>s'. s = Some s' \<and> live_sessions w = [sess_id s'])) \<and>
      (\<forall>s'. s = Some s' \<longrightarrow> sess_id s' < length w) \<and>
      at_most_one_live w \<and> closed_before_created w)"


section \<open>Example objects\<close>

text \<open>
  A model whose input operation \<^verbatim>\<open>input\<close> has batch size two and whose operation \<^verbatim>\<open>conv\<close>
  yields a \<open>4 \<times> 4\<close> map of sixteen channels; an estimator of each class; an engine that
  returns, for a gradient, the value fed to the mask of that gradient; and the closures
  that preparing the two estimators in a fresh runtime returns.
\<close>

definition example_ops :: "ImageShape \<Rightarrow> graph_ops" where
  "example_ops s =
     [''input'' \<mapsto> [Some [Some 2, Some (is_height s), Some (is_width s), Some (is_channels s)]],
      ''conv'' \<mapsto> [Some [Some 2, Some 4, Some 4, Some 16]]]"

definition example_tfrf :: "(int, unit) TFReceptiveField" where
  "example_tfrf =
     \<lparr>rf_input_shape = \<lparr>gs_n = 1, gs_height = 8, gs_width = 8, gs_channels = 3\<rparr>,
      rf_output_shapes = [], rf_num_feature_maps = 0, rf_gradient_function = (\<lambda>ms z. ()),
      tfrf_session = None, tfrf_model_func = (\<lambda>s. Inr (example_ops s))\<rparr>"

definition example_tffm :: "(int, unit) TFFeatureMapsReceptiveField" where
  "example_tffm =
     \<lparr>rf_input_shape = \<lparr>gs_n = 1, gs_height = 8, gs_width = 8, gs_channels = 3\<rparr>,
      rf_output_shapes = [], rf_num_feature_maps = 0, rf_gradient_function = (\<lambda>ms z. ()),
      tffm_session = None,
      tffm_model_func =
        (\<lambda>t. Inr [ModelTensor (tensor_graph t) ''conv'' (Some [Some 1, Some 4, Some 4, Some 16]), t])\<rparr>"

definition example_image_shape :: ImageShape where
  "example_image_shape = \<lparr>is_height = 8, is_width = 8, is_channels = 3\<rparr>"

definition example_backend :: "int backend" where
  "example_backend feeds t =
     (case t of
        Gradient g (ReduceMean g1 (Multiply g2 x m) a k) inp \<Rightarrow>
          (case map_of feeds m of Some v \<Rightarrow> Inr v | None \<Rightarrow> Inl BackendError)
      | _ \<Rightarrow> Inr 0)"

definition example_closure :: gradient_closure where
  "example_closure =
     \<lparr>cl_input_tensor = ModelTensor 0 ''input'' (Some [Some 2, Some 8, Some 8, Some 3]),
      cl_receptive_field_masks = [Placeholder 0 ''grid'' 0 [1, 4, 4, 1]],
      cl_grads =
        [define_fm_gradient 0 (ModelTensor 0 ''input'' (Some [Some 2, Some 8, Some 8, Some 3]))
           (ModelTensor 0 ''conv'' (Some [Some 2, Some 4, Some 4, Some 16]))
           (Placeholder 0 ''grid'' 0 [1, 4, 4, 1])]\<rparr>"

definition example_closure_fm :: gradient_closure where
  "example_closure_fm =
     \<lparr>cl_input_tensor = Placeholder 0 ''input_image'' 0 [1, 8, 8, 3],
      cl_receptive_field_masks =
        [Placeholder 0 ''grid'' 0 [1, 4, 4, 1], Placeholder 0 ''grid'' 1 [1, 8, 8, 1]],
      cl_grads =
        [define_fm_gradient 0 (Placeholder 0 ''input_image'' 0 [1, 8, 8, 3])
           (ModelTensor 0 ''conv'' (Some [Some 1, Some 4, Some 4, Some 16]))
           (Placeholder 0 ''grid'' 0 [1, 4, 4, 1]),
         define_fm_gradient 0 (Placeholder 0 ''input_image'' 0 [1, 8, 8, 3])
           (Placeholder 0 ''input_image'' 0 [1, 8, 8, 3])
           (Placeholder 0 ''grid'' 1 [1, 8, 8, 1])]\<rparr>"

section \<open>Properties of the probing step\<close>

lemma py_index_Some: "py_index sz i = Some k \<Longrightarrow> k < sz"
  by (auto simp: py_index_def split: if_splits)

lemma update_row:
  "xi < w \<Longrightarrow> 0 < c \<Longrightarrow>
   (replicate w (replicate c (0::'a::zero)))[xi := (replicate c 0)[0 := v]] =
   map (\<lambda>j. map (\<lambda>k. if j = xi \<and> k = 0 then v else 0) [0 ..< c]) [0 ..< w]"
  by (auto intro!: nth_equalityI simp: nth_list_update)

lemma update_image:
  assumes "yi < h" "xi < w" "0 < c"
  shows "(replicate h (replicate w (replicate c (0::'a::zero))))
           [yi := (replicate w (replicate c 0))[xi := (replicate c 0)[0 := v]]] =
         map (\<lambda>i. map (\<lambda>j. map (\<lambda>k. if i = yi \<and> j = xi \<and> k = 0 then v else 0) [0 ..< c])
                [0 ..< w]) [0 ..< h]"
  using assms
  by (auto intro!: nth_equalityI simp: nth_list_update update_row)

lemma assign_point_zeros:
  assumes z: "np_zeros (replace_n s 1) = Inr z"
    and a: "assign_point z y x v = Inr m"
  shows "\<exists>yi xi. py_index (nat (gs_height s)) y = Some yi \<and> py_index (nat (gs_width s)) x = Some xi
           \<and> 0 < gs_channels s
           \<and> m = impulse_at (nat (gs_height s)) (nat (gs_width s)) (nat (gs_channels s)) yi xi v"
proof -
  let ?h = "nat (gs_height s)" and ?w = "nat (gs_width s)" and ?c = "nat (gs_channels s)"
  from z have zs: "nd_shape z = [1, ?h, ?w, ?c]"
    and zd: "nd_data z = [replicate ?h (replicate ?w (replicate ?c 0))]"
    by (auto simp: np_zeros_def replace_n_def split: if_splits)
  from a zs obtain yi xi ki where
    yi: "py_index ?h y = Some yi" and xi: "py_index ?w x = Some xi"
    and ki: "py_index ?c 0 = Some ki"
    and m: "m = z\<lparr>nd_data := map (\<lambda>img. img[yi := (img ! yi)[xi := (img ! yi ! xi)[ki := v]]])
                               (nd_data z)\<rparr>"
    by (auto simp: assign_point_def split: option.splits)
  from ki have k0: "ki = 0" and c: "0 < ?c"
    by (auto simp: py_index_def split: if_splits)
  have yl: "yi < ?h" and xl: "xi < ?w"
    using yi xi by (auto dest: py_index_Some)
  have "m = impulse_at ?h ?w ?c yi xi v"
    using m zs zd k0 yl xl update_image [OF yl xl c, of v]
    by (simp add: impulse_at_def)
  with yi xi c show ?thesis by auto
qed

lemma loop_masks:
  "output_feature_maps_loop shapes points v fms acc = Inr ms \<Longrightarrow>
   length ms = length acc + length fms \<and> take (length acc) ms = acc \<and>
   (\<forall>j < length fms. fms ! j < length shapes \<and> fms ! j < length points \<and>
      (\<exists>yi xi. py_index (nat (gs_height (shapes ! (fms ! j)))) (gp_y (points ! (fms ! j))) = Some yi
         \<and> py_index (nat (gs_width (shapes ! (fms ! j)))) (gp_x (points ! (fms ! j))) = Some xi
         \<and> 0 < gs_channels (shapes ! (fms ! j))
         \<and> ms ! (length acc + j) =
             impulse_at (nat (gs_height (shapes ! (fms ! j)))) (nat (gs_width (shapes ! (fms ! j))))
               (nat (gs_channels (shapes ! (fms ! j)))) yi xi v))"
proof (induction fms arbitrary: acc)
  case Nil
  then show ?case by simp
next
  case (Cons fm fms)
  from Cons.prems obtain z m where
    b: "fm < length shapes" "fm < length points"
    and z: "np_zeros (replace_n (shapes ! fm) 1) = Inr z"
    and m: "assign_point z (gp_y (points ! fm)) (gp_x (points ! fm)) v = Inr m"
    and r: "output_feature_maps_loop shapes points v fms (acc @ [m]) = Inr ms"
    by (auto split: if_splits sum.splits)
  note ih = Cons.IH [OF r]
  from ih have len: "length ms = length acc + length (fm # fms)" by simp
  from ih have tk: "take (Suc (length acc)) ms = acc @ [m]" by simp
  have tk': "take (length acc) ms = acc"
  proof -
    have "take (length acc) (take (Suc (length acc)) ms) = take (length acc) (acc @ [m])"
      by (simp only: tk)
    then show ?thesis by simp
  qed
  have m0: "ms ! length acc = m"
    using tk len by (metis lessI nth_append_length nth_take)
  show ?case
  proof (intro conjI allI impI)
    show "length ms = length acc + length (fm # fms)" by (rule len)
    show "take (length acc) ms = acc" by (rule tk')
  next
    fix j assume j: "j < length (fm # fms)"
    show "(fm # fms) ! j < length shapes" using b ih j by (cases j) auto
    show "(fm # fms) ! j < length points" using b ih j by (cases j) auto
    show "\<exists>yi xi. py_index (nat (gs_height (shapes ! ((fm # fms) ! j)))) (gp_y (points ! ((fm # fms) ! j))) = Some yi
         \<and> py_index (nat (gs_width (shapes ! ((fm # fms) ! j)))) (gp_x (points ! ((fm # fms) ! j))) = Some xi
         \<and> 0 < gs_channels (shapes ! ((fm # fms) ! j))
         \<and> ms ! (length acc + j) =
             impulse_at (nat (gs_height (shapes ! ((fm # fms) ! j)))) (nat (gs_width (shapes ! ((fm # fms) ! j))))
               (nat (gs_channels (shapes ! ((fm # fms) ! j)))) yi xi v"
    proof (cases j)
      case 0
      then show ?thesis using assign_point_zeros [OF z m] m0 by simp
    next
      case (Suc j')
      then show ?thesis using ih j by simp
    qed
  qed
qed

lemma impulse_at_not_all_zero:
  "all_zero (impulse_at h w c yi xi v) \<Longrightarrow> yi < h \<Longrightarrow> xi < w \<Longrightarrow> 0 < c \<Longrightarrow> v \<noteq> 0 \<Longrightarrow> False"
proof -
  assume a: "all_zero (impulse_at h w c yi xi v)" and b: "yi < h" "xi < w" "0 < c" and v: "v \<noteq> 0"
  from a have "\<forall>i<h. \<forall>j<w. \<forall>k<c. (if i = yi \<and> j = xi \<and> k = 0 then v else 0) = 0"
    by (simp add: all_zero_def impulse_at_def list_all_length)
  with b have "(if yi = yi \<and> xi = xi \<and> (0::nat) = 0 then v else 0) = 0"
    by blast
  with v show False by simp
qed

text \<open>
  Claim C2, as the code has it. When the loop of \<^verbatim>\<open>_get_gradient_from_grid_points\<close> builds
  its masks for \<open>k\<close> feature maps without raising, it returns \<open>k\<close> masks, and for each
  feature map \<open>fm\<close> the mask is the array of that feature map's output shape with batch
  size one that is zero everywhere except for the intensity at row \<open>points[fm].y\<close>, column
  \<open>points[fm].x\<close>, channel 0 (a negative coordinate counts from the end of its axis, as
  numpy indexes). Every feature map gets its own impulse in the same call: for a non-zero
  intensity no mask of the list is all-zero.
\<close>

theorem masks_impulse_in_every_map:
  assumes "output_feature_maps_loop shapes points intensity [0 ..< k] [] = Inr ms"
  shows "length ms = k \<and>
         (\<forall>fm < k. fm < length shapes \<and> fm < length points \<and>
            (\<exists>yi xi. py_index (nat (gs_height (shapes ! fm))) (gp_y (points ! fm)) = Some yi
               \<and> py_index (nat (gs_width (shapes ! fm))) (gp_x (points ! fm)) = Some xi
               \<and> 0 < gs_channels (shapes ! fm)
               \<and> ms ! fm = impulse_at (nat (gs_height (shapes ! fm))) (nat (gs_width (shapes ! fm)))
                             (nat (gs_channels (shapes ! fm))) yi xi intensity
               \<and> (intensity \<noteq> 0 \<longrightarrow> \<not> all_zero (ms ! fm))))"
proof -
  note l = loop_masks [OF assms]
  show ?thesis
  proof (intro conjI allI impI)
    show "length ms = k" using l by simp
  next
    fix fm assume fm: "fm < k"
    with l show "fm < length shapes" and "fm < length points" by auto
    from l fm obtain yi xi where
      yi: "py_index (nat (gs_height (shapes ! fm))) (gp_y (points ! fm)) = Some yi"
      and xi: "py_index (nat (gs_width (shapes ! fm))) (gp_x (points ! fm)) = Some xi"
      and c: "0 < gs_channels (shapes ! fm)"
      and m: "ms ! fm = impulse_at (nat (gs_height (shapes ! fm))) (nat (gs_width (shapes ! fm)))
                             (nat (gs_channels (shapes ! fm))) yi xi intensity"
      by fastforce
    show "\<exists>yi xi. py_index (nat (gs_height (shapes ! fm))) (gp_y (points ! fm)) = Some yi
               \<and> py_index (nat (gs_width (shapes ! fm))) (gp_x (points ! fm)) = Some xi
               \<and> 0 < gs_channels (shapes ! fm)
               \<and> ms ! fm = impulse_at (nat (gs_height (shapes ! fm))) (nat (gs_width (shapes ! fm)))
                             (nat (gs_channels (shapes ! fm))) yi xi intensity
               \<and> (intensity \<noteq> 0 \<longrightarrow> \<not> all_zero (ms ! fm))"
      using yi xi c m impulse_at_not_all_zero [of "nat (gs_height (shapes ! fm))" "nat (gs_width (shapes ! fm))" "nat (gs_channels (shapes ! fm))" yi xi intensity]
        py_index_Some [OF yi] py_index_Some [OF xi] by auto
  qed
qed

lemma all_zero_zero_image: "all_zero (zero_image s)"
  by (simp add: all_zero_def zero_image_def list_all_length)

lemma np_zeros_batch1: "np_zeros (replace_n s 1) = Inr z \<Longrightarrow> z = zero_image s"
  by (auto simp: np_zeros_def replace_n_def zero_image_def split: if_splits)

text \<open>
  A feature map of shape \<open>(2, 2, 2, 1)\<close> probed at \<open>x = 1, y = 0\<close> with intensity 1.
\<close>

theorem masks_impulse_in_every_map_witness:
  "output_feature_maps_loop
     [\<lparr>gs_n = 2, gs_height = 2, gs_width = 2, gs_channels = 1\<rparr>] [\<lparr>gp_x = 1, gp_y = 0\<rparr>]
     (1::int) [0 ..< 1] [] =
   Inr [\<lparr>nd_shape = [1, 2, 2, 1], nd_data = [[[[0], [1]], [[0], [0]]]]\<rparr>]
   \<and> \<not> all_zero ([\<lparr>nd_shape = [1, 2, 2, 1], nd_data = [[[[0], [1::int]], [[0], [0]]]]\<rparr>] ! 0)"
proof -
  have h: "output_feature_maps_loop
     [\<lparr>gs_n = 2, gs_height = 2, gs_width = 2, gs_channels = 1\<rparr>] [\<lparr>gp_x = 1, gp_y = 0\<rparr>]
     (1::int) [0 ..< 1] [] =
   Inr [\<lparr>nd_shape = [1, 2, 2, 1], nd_data = [[[[0], [1]], [[0], [0]]]]\<rparr>]"
    by (simp add: np_zeros_def replace_n_def assign_point_def py_index_def eval_nat_numeral)
  from masks_impulse_in_every_map [OF h]
  have "\<not> all_zero ([\<lparr>nd_shape = [1, 2, 2, 1], nd_data = [[[[0], [1::int]], [[0], [0]]]]\<rparr>] ! 0)"
    by auto
  with h show ?thesis by (rule conjI)
qed

text \<open>
  Claim C2 as stated fails: with two feature maps of shape \<open>(1, 1, 1, 1)\<close>, both masks
  carry the impulse, so neither feature map is the only one with an impulse.
\<close>

theorem impulse_for_that_map_only_counterexample:
  "output_feature_maps_loop
     [\<lparr>gs_n = 1, gs_height = 1, gs_width = 1, gs_channels = 1\<rparr>,
      \<lparr>gs_n = 1, gs_height = 1, gs_width = 1, gs_channels = 1\<rparr>]
     [\<lparr>gp_x = 0, gp_y = 0\<rparr>, \<lparr>gp_x = 0, gp_y = 0\<rparr>] (1::int) [0 ..< 2] [] =
   Inr [\<lparr>nd_shape = [1, 1, 1, 1], nd_data = [[[[1]]]]\<rparr>,
        \<lparr>nd_shape = [1, 1, 1, 1], nd_data = [[[[1]]]]\<rparr>]
   \<and> \<not> impulse_for_that_map_only
         [\<lparr>nd_shape = [1, 1, 1, 1], nd_data = [[[[1::int]]]]\<rparr>,
          \<lparr>nd_shape = [1, 1, 1, 1], nd_data = [[[[1]]]]\<rparr>] 0
   \<and> \<not> impulse_for_that_map_only
         [\<lparr>nd_shape = [1, 1, 1, 1], nd_data = [[[[1::int]]]]\<rparr>,
          \<lparr>nd_shape = [1, 1, 1, 1], nd_data = [[[[1]]]]\<rparr>] 1"
  by (simp add: np_zeros_def replace_n_def assign_point_def py_index_def eval_nat_numeral
        impulse_for_that_map_only_def all_zero_def upt_rec)


text \<open>
  Claim C9. Whenever \<^verbatim>\<open>_get_gradient_from_grid_points\<close> returns, its result is the result
  of the gradient function applied to the masks of the loop and to the all-zeros image of
  shape \<^verbatim>\<open>_input_shape.replace(n=1)\<close>; the function has no other source for the base
  input.
\<close>

theorem base_input_is_zero_image:
  fixes rf :: "('a::zero, 'r, 'm) ReceptiveField_scheme"
  assumes "get_gradient_from_grid_points rf points intensity = Inr r"
  shows "\<exists>ms. output_feature_maps_loop (rf_output_shapes rf) points intensity
                 [0 ..< nat (rf_num_feature_maps rf)] [] = Inr ms
             \<and> r = rf_gradient_function rf ms (zero_image (rf_input_shape rf))
             \<and> all_zero (zero_image (rf_input_shape rf) :: 'a ndarray)"
  using assms
  by (auto simp: get_gradient_from_grid_points_def Let_def all_zero_zero_image
           split: sum.splits dest: np_zeros_batch1)



text \<open>
  With a gradient function that returns the base input it is given, the probe of an
  estimator with input shape \<open>(4, 1, 2, 1)\<close> returns the zero image of shape
  \<open>(1, 1, 2, 1)\<close>.
\<close>

theorem base_input_is_zero_image_witness:
  "get_gradient_from_grid_points
     \<lparr>rf_input_shape = \<lparr>gs_n = 4, gs_height = 1, gs_width = 2, gs_channels = 1\<rparr>,
      rf_output_shapes = [\<lparr>gs_n = 1, gs_height = 1, gs_width = 1, gs_channels = 1\<rparr>],
      rf_num_feature_maps = 1, rf_gradient_function = (\<lambda>ms z. z)\<rparr>
     [\<lparr>gp_x = 0, gp_y = 0\<rparr>] (1::int) =
   Inr \<lparr>nd_shape = [1, 1, 2, 1], nd_data = [[[[0], [0]]]]\<rparr>
   \<and> all_zero (zero_image \<lparr>gs_n = 4, gs_height = 1, gs_width = 2, gs_channels = 1\<rparr> :: int ndarray)"
proof -
  have h: "get_gradient_from_grid_points
     \<lparr>rf_input_shape = \<lparr>gs_n = 4, gs_height = 1, gs_width = 2, gs_channels = 1\<rparr>,
      rf_output_shapes = [\<lparr>gs_n = 1, gs_height = 1, gs_width = 1, gs_channels = 1\<rparr>],
      rf_num_feature_maps = 1, rf_gradient_function = (\<lambda>ms z. z)\<rparr>
     [\<lparr>gp_x = 0, gp_y = 0\<rparr>] (1::int) =
   Inr \<lparr>nd_shape = [1, 1, 2, 1], nd_data = [[[[0], [0]]]]\<rparr>"
    by (simp add: get_gradient_from_grid_points_def np_zeros_def replace_n_def assign_point_def
          py_index_def eval_nat_numeral)
  from base_input_is_zero_image [OF h]
  have "all_zero (zero_image \<lparr>gs_n = 4, gs_height = 1, gs_width = 2, gs_channels = 1\<rparr> :: int ndarray)"
    by auto
  with h show ?thesis by (rule conjI)
qed

section \<open>Properties of the prepared gradient function\<close>

subsection \<open>What a successful loop has built\<close>

lemma feature_map_step_Inr:
  assumes "feature_map_step g inp out (grads, masks, shapes) = Inr st'"
  shows "\<exists>sh. get_tensor_shape out = Inr sh \<and> 3 \<le> length sh \<and>
           st' = (grads @ [define_fm_gradient g inp out
                             (Placeholder g ''grid'' (length masks) [1, sh ! 1, sh ! 2, 1])],
                  masks @ [Placeholder g ''grid'' (length masks) [1, sh ! 1, sh ! 2, 1]],
                  shapes @ [(1, sh ! 1, sh ! 2, 1)])"
  using assms
  by (auto simp: feature_map_step_def tf_placeholder_def tuple_list_def Let_def
           split: sum.splits if_splits)

lemma feature_maps_loop_Inr:
  "feature_maps_loop g inp outs (grads, masks, shapes) = Inr (grads', masks', shapes') \<Longrightarrow>
   length grads' = length grads + length outs \<and>
   length masks' = length masks + length outs \<and>
   length shapes' = length shapes + length outs \<and>
   take (length grads) grads' = grads \<and> take (length masks) masks' = masks \<and>
   take (length shapes) shapes' = shapes \<and>
   (\<forall>j < length outs. \<exists>sh. get_tensor_shape (outs ! j) = Inr sh \<and> 3 \<le> length sh \<and>
      shapes' ! (length shapes + j) = (1, sh ! 1, sh ! 2, 1) \<and>
      masks' ! (length masks + j) = Placeholder g ''grid'' (length masks + j) [1, sh ! 1, sh ! 2, 1] \<and>
      grads' ! (length grads + j) =
        define_fm_gradient g inp (outs ! j) (masks' ! (length masks + j)))"
proof (induction outs arbitrary: grads masks shapes)
  case Nil
  then show ?case by simp
next
  case (Cons out outs)
  from Cons.prems obtain st where
    s: "feature_map_step g inp out (grads, masks, shapes) = Inr st"
    and r: "feature_maps_loop g inp outs st = Inr (grads', masks', shapes')"
    by (auto split: sum.splits)
  from feature_map_step_Inr [OF s] obtain sh where
    sh: "get_tensor_shape out = Inr sh" "3 \<le> length sh"
    and st: "st = (grads @ [define_fm_gradient g inp out
                             (Placeholder g ''grid'' (length masks) [1, sh ! 1, sh ! 2, 1])],
                  masks @ [Placeholder g ''grid'' (length masks) [1, sh ! 1, sh ! 2, 1]],
                  shapes @ [(1, sh ! 1, sh ! 2, 1)])"
    by blast
  note ih = Cons.IH [OF r [unfolded st]]
  have tk: "\<And>xs ys (a::'x). take (Suc (length xs)) ys = xs @ [a] \<Longrightarrow>
              take (length xs) ys = xs \<and> ys ! length xs = a"
  proof -
    fix xs ys and a :: 'x
    assume t: "take (Suc (length xs)) ys = xs @ [a]"
    then have "take (length xs) (take (Suc (length xs)) ys) = take (length xs) (xs @ [a])"
      by simp
    then have 1: "take (length xs) ys = xs" by simp
    from t have "length xs < length ys"
      by (metis length_append_singleton length_take lessI min_less_iff_conj)
    then have "take (Suc (length xs)) ys ! length xs = ys ! length xs" by simp
    with t have 2: "ys ! length xs = a" by simp
    from 1 2 show "take (length xs) ys = xs \<and> ys ! length xs = a" by simp
  qed
  from ih have g0: "take (length grads) grads' = grads \<and> grads' ! length grads =
       define_fm_gradient g inp out (Placeholder g ''grid'' (length masks) [1, sh ! 1, sh ! 2, 1])"
    by (intro tk) simp
  from ih have m0: "take (length masks) masks' = masks \<and> masks' ! length masks =
       Placeholder g ''grid'' (length masks) [1, sh ! 1, sh ! 2, 1]"
    by (intro tk) simp
  from ih have s0: "take (length shapes) shapes' = shapes \<and> shapes' ! length shapes =
       (1, sh ! 1, sh ! 2, 1)"
    by (intro tk) simp
  show ?case
  proof (intro conjI allI impI)
    show "length grads' = length grads + length (out # outs)" using ih by simp
    show "length masks' = length masks + length (out # outs)" using ih by simp
    show "length shapes' = length shapes + length (out # outs)" using ih by simp
    show "take (length grads) grads' = grads" using g0 by simp
    show "take (length masks) masks' = masks" using m0 by simp
    show "take (length shapes) shapes' = shapes" using s0 by simp
  next
    fix j assume j: "j < length (out # outs)"
    show "\<exists>sh. get_tensor_shape ((out # outs) ! j) = Inr sh \<and> 3 \<le> length sh \<and>
      shapes' ! (length shapes + j) = (1, sh ! 1, sh ! 2, 1) \<and>
      masks' ! (length masks + j) = Placeholder g ''grid'' (length masks + j) [1, sh ! 1, sh ! 2, 1] \<and>
      grads' ! (length grads + j) =
        define_fm_gradient g inp ((out # outs) ! j) (masks' ! (length masks + j))"
    proof (cases j)
      case 0
      then show ?thesis using sh g0 m0 s0 by simp
    next
      case (Suc j')
      with j have "j' < length outs" by simp
      with ih Suc show ?thesis by simp
    qed
  qed
qed

lemma named_outputs_loop_Inr:
  "named_outputs_loop g ops inp names st = Inr st' \<Longrightarrow>
   \<exists>outs. map (get_operation_output0 ops g) names = map Inr outs \<and>
          feature_maps_loop g inp outs st = Inr st'"
proof (induction names arbitrary: st)
  case Nil
  then show ?case by simp
next
  case (Cons name names)
  from Cons.prems obtain out st1 where
    o: "get_operation_output0 ops g name = Inr out"
    and s: "feature_map_step g inp out st = Inr st1"
    and r: "named_outputs_loop g ops inp names st1 = Inr st'"
    by (auto split: sum.splits)
  from Cons.IH [OF r] obtain outs where
    "map (get_operation_output0 ops g) names = map Inr outs"
    "feature_maps_loop g inp outs st1 = Inr st'"
    by blast
  with o s have "map (get_operation_output0 ops g) (name # names) = map Inr (out # outs) \<and>
          feature_maps_loop g inp (out # outs) st = Inr st'"
    by simp
  then show ?case by blast
qed

subsection \<open>What the calls do to the history\<close>

lemma session_run_world:
  "session_run backend s fetches feeds w = (w', r) \<Longrightarrow>
   w' = w \<and> (\<exists>e. r = Inl e) \<or> w' = w @ [EvRun (sess_id s) fetches]"
  by (auto simp: session_run_def split: if_splits)

lemma gradient_fn_world:
  "gradient_fn backend cl s ms img w = (w', r) \<Longrightarrow>
   w' = w \<and> (\<exists>e. r = Inl e) \<or> (\<exists>sid. w' = w @ [EvRun sid (cl_grads cl)])"
  by (auto simp: gradient_fn_def Let_def split: option.splits dest!: session_run_world)

lemma tf_session_eq:
  "(\<lparr>sess_id = a, sess_graph = b\<rparr> = s) = (sess_id s = a \<and> sess_graph s = b)"
  by (cases s) auto

lemma open_session_and_return_Inr:
  assumes "open_session_and_return backend g inp ish (grads, masks, shapes) w = (w', sess, r)"
  shows "sess = \<lparr>sess_id = length w, sess_graph = g\<rparr> \<and>
         (w' = w @ [EvSession (length w) g] \<or>
          w' = w @ [EvSession (length w) g, EvRun (length w) [VariablesInitializer g]]) \<and>
         (\<forall>p. r = Inr p \<longrightarrow>
            w' = w @ [EvSession (length w) g, EvRun (length w) [VariablesInitializer g]] \<and>
            \<not> closed w' (length w) \<and>
            (\<exists>gi. GridShape_of_list ish = Inr gi \<and>
               p = (\<lparr>cl_input_tensor = inp, cl_receptive_field_masks = masks, cl_grads = grads\<rparr>,
                    gi, map GridShape_of_tuple shapes)))"
  using assms
  by (auto simp: open_session_and_return_def tf_Session_def session_run_def closed_def
                 tf_session_eq
           split: prod.splits sum.splits if_splits)

lemma tfrf_prepare_outcome:
  assumes "TFReceptiveField_prepare_gradient_func backend self ish iname onames w = (w', self', r)"
  shows "prepare_outcome (tfrf_session self) w w' (tfrf_session self') \<and>
         (\<exists>s'. self' = self\<lparr>tfrf_session := s'\<rparr>)"
proof -
  let ?w1 = "release_session (tfrf_session self) w"
  let ?g = "length ?w1"
  let ?w2 = "?w1 @ [EvGraph ?g]"
  have same: "\<exists>s'. self = self\<lparr>tfrf_session := s'\<rparr>"
    by (rule exI [of _ "tfrf_session self"]) simp
  show ?thesis
  proof (cases "\<exists>ops inp ish' st. tfrf_model_func self ish = Inr ops \<and>
                  get_operation_output0 ops ?g iname = Inr inp \<and>
                  get_tensor_shape inp = Inr ish' \<and>
                  named_outputs_loop ?g ops inp onames ([], [], []) = Inr st")
    case True
    then obtain ops inp ish' grads masks shapes where
      "tfrf_model_func self ish = Inr ops"
      "get_operation_output0 ops ?g iname = Inr inp"
      "get_tensor_shape inp = Inr ish'"
      "named_outputs_loop ?g ops inp onames ([], [], []) = Inr (grads, masks, shapes)"
      by (metis prod_cases3)
    with assms obtain sess where
      o: "open_session_and_return backend ?g inp ish' (grads, masks, shapes) ?w2 = (w', sess, r)"
      and s: "self' = self\<lparr>tfrf_session := Some sess\<rparr>"
      by (auto simp: TFReceptiveField_prepare_gradient_func_def Let_def tf_Graph_def
               split: prod.splits)
    from open_session_and_return_Inr [OF o] s show ?thesis
      by (auto simp: prepare_outcome_def Let_def)
  next
    case False
    with assms have "w' = ?w2 \<and> self' = self"
      by (auto simp: TFReceptiveField_prepare_gradient_func_def Let_def tf_Graph_def
               split: prod.splits sum.splits)
    with same show ?thesis
      by (simp add: prepare_outcome_def Let_def)
  qed
qed

lemma tffm_prepare_outcome:
  assumes "TFFeatureMapsReceptiveField_prepare_gradient_func backend self ish w = (w', self', r)"
  shows "prepare_outcome (tffm_session self) w w' (tffm_session self') \<and>
         (\<exists>s'. self' = self\<lparr>tffm_session := s'\<rparr>)"
proof -
  let ?w1 = "release_session (tffm_session self) w"
  let ?g = "length ?w1"
  let ?w2 = "?w1 @ [EvGraph ?g]"
  let ?inp = "tf_placeholder ?g [1, is_height ish, is_width ish, is_channels ish] ''input_image'' 0"
  have same: "\<exists>s'. self = self\<lparr>tffm_session := s'\<rparr>"
    by (rule exI [of _ "tffm_session self"]) simp
  show ?thesis
  proof (cases "\<exists>ish' fms st. get_tensor_shape ?inp = Inr ish' \<and>
                  tffm_model_func self ?inp = Inr fms \<and>
                  feature_maps_loop ?g ?inp fms ([], [], []) = Inr st")
    case True
    then obtain ish' fms grads masks shapes where
      "get_tensor_shape ?inp = Inr ish'"
      "tffm_model_func self ?inp = Inr fms"
      "feature_maps_loop ?g ?inp fms ([], [], []) = Inr (grads, masks, shapes)"
      by (metis prod_cases3)
    with assms obtain sess where
      o: "open_session_and_return backend ?g ?inp ish' (grads, masks, shapes) ?w2 = (w', sess, r)"
      and s: "self' = self\<lparr>tffm_session := Some sess\<rparr>"
      by (auto simp: TFFeatureMapsReceptiveField_prepare_gradient_func_def Let_def tf_Graph_def
               split: prod.splits)
    from open_session_and_return_Inr [OF o] s show ?thesis
      by (auto simp: prepare_outcome_def Let_def)
  next
    case False
    with assms have "w' = ?w2 \<and> self' = self"
      by (auto simp: TFFeatureMapsReceptiveField_prepare_gradient_func_def Let_def tf_Graph_def
               split: prod.splits sum.splits)
    with same show ?thesis
      by (simp add: prepare_outcome_def Let_def)
  qed
qed

subsection \<open>One live session per estimator\<close>

lemma created_sessions_append:
  "created_sessions (a @ b) = created_sessions a @ created_sessions b"
  by (induction a rule: created_sessions.induct) auto

lemma closed_snoc: "closed (w @ [e]) sid \<longleftrightarrow> closed w sid \<or> e = EvClose sid"
  by (auto simp: closed_def)

lemma live_snoc_close:
  "live_sessions (w @ [EvClose sid]) = filter (\<lambda>s. s \<noteq> sid) (live_sessions w)"
  by (auto simp: live_sessions_def created_sessions_append closed_snoc intro: filter_cong)

lemma live_snoc_session:
  "live_sessions (w @ [EvSession sid g]) = live_sessions w @ (if closed w sid then [] else [sid])"
  by (auto simp: live_sessions_def created_sessions_append closed_snoc)

lemma live_snoc_other:
  "live_sessions (w @ [EvResetDefaultGraph]) = live_sessions w"
  "live_sessions (w @ [EvGraph g]) = live_sessions w"
  "live_sessions (w @ [EvRun sid ts]) = live_sessions w"
  by (auto simp: live_sessions_def created_sessions_append closed_snoc)

lemma at_most_one_live_snoc:
  "at_most_one_live (w @ [e]) \<longleftrightarrow> at_most_one_live w \<and> length (live_sessions (w @ [e])) \<le> 1"
  by (simp add: at_most_one_live_def)

lemma closed_before_created_snoc:
  "closed_before_created (w @ [e]) \<longleftrightarrow>
   closed_before_created w \<and> (case e of EvSession s g \<Rightarrow> live_sessions w = [] | _ \<Rightarrow> True)"
  by (auto simp: closed_before_created_def list_all_iff nth_append split: tf_event.splits)

lemma owner_inv_snoc_other:
  assumes "owner_inv w s" and "e = EvResetDefaultGraph \<or> (\<exists>g. e = EvGraph g) \<or> (\<exists>sid ts. e = EvRun sid ts)"
  shows "owner_inv (w @ [e]) s"
  using assms
  by (auto simp: owner_inv_def live_snoc_other at_most_one_live_snoc closed_before_created_snoc
           less_Suc_eq)

lemma owner_inv_close:
  assumes "owner_inv w (Some s)"
  shows "owner_inv (w @ [EvClose (sess_id s)]) (Some s) \<and> live_sessions (w @ [EvClose (sess_id s)]) = []"
  using assms
  by (auto simp: owner_inv_def live_snoc_close at_most_one_live_snoc closed_before_created_snoc
           less_Suc_eq)

lemma owner_inv_session:
  assumes "owner_inv w s" and "live_sessions w = []"
  shows "owner_inv (w @ [EvSession (length w) g]) (Some \<lparr>sess_id = length w, sess_graph = g\<rparr>)"
  using assms
  by (auto simp: owner_inv_def live_snoc_session at_most_one_live_snoc closed_before_created_snoc
           less_Suc_eq closed_def)

lemma owner_inv_release:
  assumes "owner_inv w s"
  shows "owner_inv (release_session s w) s \<and> live_sessions (release_session s w) = []"
proof (cases s)
  case None
  with assms show ?thesis by (auto simp: release_session_def owner_inv_def)
next
  case (Some s')
  with assms have "owner_inv (w @ [EvResetDefaultGraph]) (Some s')"
    by (simp add: owner_inv_snoc_other)
  from owner_inv_close [OF this] Some show ?thesis
    by (simp add: release_session_def session_close_def tf_reset_default_graph_def)
qed

lemma owner_inv_prepare_outcome:
  assumes i: "owner_inv w s" and p: "prepare_outcome s w w' s'"
  shows "owner_inv w' s'"
proof -
  let ?w1 = "release_session s w"
  let ?g = "length ?w1"
  let ?w2 = "?w1 @ [EvGraph ?g]"
  let ?w3 = "?w2 @ [EvSession (length ?w2) ?g]"
  from owner_inv_release [OF i] have i1: "owner_inv ?w1 s" and l1: "live_sessions ?w1 = []"
    by simp_all
  from i1 have i2: "owner_inv ?w2 s" by (rule owner_inv_snoc_other) blast
  from l1 have l2: "live_sessions ?w2 = []" by (simp add: live_snoc_other)
  from owner_inv_session [OF i2 l2]
  have i3: "owner_inv ?w3 (Some \<lparr>sess_id = length ?w2, sess_graph = ?g\<rparr>)" .
  then have i4: "owner_inv (?w3 @ [EvRun (Suc ?g) [VariablesInitializer ?g]])
                   (Some \<lparr>sess_id = length ?w2, sess_graph = ?g\<rparr>)"
    by (rule owner_inv_snoc_other) blast
  from p i2 i3 i4 show ?thesis
    by (auto simp: prepare_outcome_def Let_def)
qed

lemma owner_inv_gradient_fn:
  assumes "owner_inv w s" and "gradient_fn backend cl s0 ms img w = (w', r)"
  shows "owner_inv w' s"
  using assms by (auto dest!: gradient_fn_world intro: owner_inv_snoc_other)

lemma owner_inv_init: "owner_inv [] None"
  by (simp add: owner_inv_def live_sessions_def at_most_one_live_def closed_before_created_def)

lemma tfrf_calls_owner_inv:
  "owner_inv w (tfrf_session self) \<Longrightarrow> tfrf_calls backend cs (w, self) = (w', self') \<Longrightarrow>
   owner_inv w' (tfrf_session self')"
proof (induction cs arbitrary: w self)
  case Nil
  then show ?case by simp
next
  case (Cons c cs)
  show ?case
  proof (cases c)
    case (CallPrepare ish iname onames)
    obtain w1 self1 r where
      p: "TFReceptiveField_prepare_gradient_func backend self ish iname onames w = (w1, self1, r)"
      by (metis prod_cases3)
    from tfrf_prepare_outcome [OF p] Cons.prems(1)
    have "owner_inv w1 (tfrf_session self1)"
      by (auto intro: owner_inv_prepare_outcome)
    moreover from Cons.prems(2) CallPrepare p have "tfrf_calls backend cs (w1, self1) = (w', self')"
      by simp
    ultimately show ?thesis by (rule Cons.IH)
  next
    case (CallGradientFn cl ms img)
    obtain w1 r where
      p: "gradient_fn backend cl (tfrf_session self) ms img w = (w1, r)"
      by (metis prod.exhaust)
    from owner_inv_gradient_fn [OF Cons.prems(1) p]
    have "owner_inv w1 (tfrf_session self)" .
    moreover from Cons.prems(2) CallGradientFn p have "tfrf_calls backend cs (w1, self) = (w', self')"
      by simp
    ultimately show ?thesis by (rule Cons.IH)
  qed
qed

lemma tffm_calls_owner_inv:
  "owner_inv w (tffm_session self) \<Longrightarrow> tffm_calls backend cs (w, self) = (w', self') \<Longrightarrow>
   owner_inv w' (tffm_session self')"
proof (induction cs arbitrary: w self)
  case Nil
  then show ?case by simp
next
  case (Cons c cs)
  show ?case
  proof (cases c)
    case (CallPrepareFM ish)
    obtain w1 self1 r where
      p: "TFFeatureMapsReceptiveField_prepare_gradient_func backend self ish w = (w1, self1, r)"
      by (metis prod_cases3)
    from tffm_prepare_outcome [OF p] Cons.prems(1)
    have "owner_inv w1 (tffm_session self1)"
      by (auto intro: owner_inv_prepare_outcome)
    moreover from Cons.prems(2) CallPrepareFM p have "tffm_calls backend cs (w1, self1) = (w', self')"
      by simp
    ultimately show ?thesis by (rule Cons.IH)
  next
    case (CallGradientFnFM cl ms img)
    obtain w1 r where
      p: "gradient_fn backend cl (tffm_session self) ms img w = (w1, r)"
      by (metis prod.exhaust)
    from owner_inv_gradient_fn [OF Cons.prems(1) p]
    have "owner_inv w1 (tffm_session self)" .
    moreover from Cons.prems(2) CallGradientFnFM p have "tffm_calls backend cs (w1, self) = (w', self')"
      by simp
    ultimately show ?thesis by (rule Cons.IH)
  qed
qed

text \<open>
  Claim C6. Take an estimator of either class as its constructor leaves it, without a
  session, in a runtime that nothing else uses, and let a client make any sequence of
  calls of \<^verbatim>\<open>_prepare_gradient_func\<close> and of gradient functions, succeeding or failing. Then
  at every moment of the resulting history at most one session is live, and every session
  was created at a moment when all sessions created before it were closed: a session held
  from an earlier call is closed before the new one is created.
\<close>

theorem one_live_session_per_estimator:
  "(tfrf_session self = None \<longrightarrow>
      at_most_one_live (fst (tfrf_calls backend cs ([], self))) \<and>
      closed_before_created (fst (tfrf_calls backend cs ([], self)))) \<and>
   (tffm_session self_fm = None \<longrightarrow>
      at_most_one_live (fst (tffm_calls backend' cs_fm ([], self_fm))) \<and>
      closed_before_created (fst (tffm_calls backend' cs_fm ([], self_fm))))"
proof (intro conjI impI)
  assume n: "tfrf_session self = None"
  obtain w' self' where r: "tfrf_calls backend cs ([], self) = (w', self')"
    by (metis prod.exhaust)
  from n have "owner_inv [] (tfrf_session self)" by (simp add: owner_inv_init)
  from tfrf_calls_owner_inv [OF this r] r
  show "at_most_one_live (fst (tfrf_calls backend cs ([], self)))"
    and "closed_before_created (fst (tfrf_calls backend cs ([], self)))"
    by (simp_all add: owner_inv_def)
next
  assume n: "tffm_session self_fm = None"
  obtain w' self' where r: "tffm_calls backend' cs_fm ([], self_fm) = (w', self')"
    by (metis prod.exhaust)
  from n have "owner_inv [] (tffm_session self_fm)" by (simp add: owner_inv_init)
  from tffm_calls_owner_inv [OF this r] r
  show "at_most_one_live (fst (tffm_calls backend' cs_fm ([], self_fm)))"
    and "closed_before_created (fst (tffm_calls backend' cs_fm ([], self_fm)))"
    by (simp_all add: owner_inv_def)
qed

subsection \<open>What a successful call returns\<close>

lemma feature_maps_loop_start:
  assumes "feature_maps_loop g inp outs ([], [], []) = Inr (grads, masks, shapes)"
  shows "length grads = length outs \<and> length masks = length outs \<and> length shapes = length outs \<and>
         (\<forall>j < length outs. \<exists>sh. get_tensor_shape (outs ! j) = Inr sh \<and> 3 \<le> length sh \<and>
            shapes ! j = (1, sh ! 1, sh ! 2, 1) \<and>
            masks ! j = Placeholder g ''grid'' j [1, sh ! 1, sh ! 2, 1] \<and>
            grads ! j = define_fm_gradient g inp (outs ! j) (masks ! j))"
  using feature_maps_loop_Inr [OF assms] by simp

lemma tfrf_prepare_Inr:
  assumes "TFReceptiveField_prepare_gradient_func backend self ish iname onames w =
             (w', self', Inr (cl, gi, gos))"
  shows "\<exists>ops ish' outs shapes.
           tfrf_model_func self ish = Inr ops \<and>
           get_operation_output0 ops (length (release_session (tfrf_session self) w)) iname =
             Inr (cl_input_tensor cl) \<and>
           get_tensor_shape (cl_input_tensor cl) = Inr ish' \<and>
           map (get_operation_output0 ops (length (release_session (tfrf_session self) w))) onames =
             map Inr outs \<and>
           feature_maps_loop (length (release_session (tfrf_session self) w)) (cl_input_tensor cl) outs
             ([], [], []) = Inr (cl_grads cl, cl_receptive_field_masks cl, shapes) \<and>
           GridShape_of_list ish' = Inr gi \<and> gos = map GridShape_of_tuple shapes \<and>
           tfrf_session self' =
             Some \<lparr>sess_id = Suc (length (release_session (tfrf_session self) w)),
                   sess_graph = length (release_session (tfrf_session self) w)\<rparr> \<and>
           \<not> closed w' (Suc (length (release_session (tfrf_session self) w))) \<and>
           w' = release_session (tfrf_session self) w @
                  [EvGraph (length (release_session (tfrf_session self) w)),
                   EvSession (Suc (length (release_session (tfrf_session self) w)))
                     (length (release_session (tfrf_session self) w)),
                   EvRun (Suc (length (release_session (tfrf_session self) w)))
                     [VariablesInitializer (length (release_session (tfrf_session self) w))]]"
proof -
  let ?w1 = "release_session (tfrf_session self) w"
  let ?g = "length ?w1"
  let ?w2 = "?w1 @ [EvGraph ?g]"
  from assms obtain ops inp ish' st sess where
    m: "tfrf_model_func self ish = Inr ops"
    and i: "get_operation_output0 ops ?g iname = Inr inp"
    and s: "get_tensor_shape inp = Inr ish'"
    and l: "named_outputs_loop ?g ops inp onames ([], [], []) = Inr st"
    and o: "open_session_and_return backend ?g inp ish' st ?w2 = (w', sess, Inr (cl, gi, gos))"
    and s': "self' = self\<lparr>tfrf_session := Some sess\<rparr>"
    by (auto simp: TFReceptiveField_prepare_gradient_func_def Let_def tf_Graph_def
             split: prod.splits sum.splits)
  obtain grads masks shapes where st: "st = (grads, masks, shapes)"
    by (metis prod_cases3)
  from named_outputs_loop_Inr [OF l] st obtain outs where
    outs: "map (get_operation_output0 ops ?g) onames = map Inr outs"
    and f: "feature_maps_loop ?g inp outs ([], [], []) = Inr (grads, masks, shapes)"
    by blast
  from open_session_and_return_Inr [OF o [unfolded st]]
  have sess: "sess = \<lparr>sess_id = length ?w2, sess_graph = ?g\<rparr>"
    and cl: "cl = \<lparr>cl_input_tensor = inp, cl_receptive_field_masks = masks, cl_grads = grads\<rparr>"
    and gi: "GridShape_of_list ish' = Inr gi"
    and gos: "gos = map GridShape_of_tuple shapes"
    and w': "w' = ?w2 @ [EvSession (length ?w2) ?g, EvRun (length ?w2) [VariablesInitializer ?g]]"
    and nc: "\<not> closed w' (length ?w2)"
    by auto
  from m i s outs f gi gos s' sess cl w' nc show ?thesis
    by auto
qed

lemma tffm_prepare_Inr:
  assumes "TFFeatureMapsReceptiveField_prepare_gradient_func backend self ish w =
             (w', self', Inr (cl, gi, gos))"
  shows "\<exists>outs shapes.
           cl_input_tensor cl =
             Placeholder (length (release_session (tffm_session self) w)) ''input_image'' 0
               [1, is_height ish, is_width ish, is_channels ish] \<and>
           tffm_model_func self (cl_input_tensor cl) = Inr outs \<and>
           feature_maps_loop (length (release_session (tffm_session self) w)) (cl_input_tensor cl) outs
             ([], [], []) = Inr (cl_grads cl, cl_receptive_field_masks cl, shapes) \<and>
           gi = \<lparr>gs_n = 1, gs_height = is_height ish, gs_width = is_width ish,
                  gs_channels = is_channels ish\<rparr> \<and>
           gos = map GridShape_of_tuple shapes \<and>
           tffm_session self' =
             Some \<lparr>sess_id = Suc (length (release_session (tffm_session self) w)),
                   sess_graph = length (release_session (tffm_session self) w)\<rparr> \<and>
           \<not> closed w' (Suc (length (release_session (tffm_session self) w))) \<and>
           w' = release_session (tffm_session self) w @
                  [EvGraph (length (release_session (tffm_session self) w)),
                   EvSession (Suc (length (release_session (tffm_session self) w)))
                     (length (release_session (tffm_session self) w)),
                   EvRun (Suc (length (release_session (tffm_session self) w)))
                     [VariablesInitializer (length (release_session (tffm_session self) w))]]"
proof -
  let ?w1 = "release_session (tffm_session self) w"
  let ?g = "length ?w1"
  let ?w2 = "?w1 @ [EvGraph ?g]"
  let ?inp = "Placeholder ?g ''input_image'' 0 [1, is_height ish, is_width ish, is_channels ish]"
  have sh: "get_tensor_shape ?inp = Inr [1, is_height ish, is_width ish, is_channels ish]"
    by (simp add: get_tensor_shape_def)
  from assms sh obtain outs st sess where
    m: "tffm_model_func self ?inp = Inr outs"
    and l: "feature_maps_loop ?g ?inp outs ([], [], []) = Inr st"
    and o: "open_session_and_return backend ?g ?inp [1, is_height ish, is_width ish, is_channels ish]
              st ?w2 = (w', sess, Inr (cl, gi, gos))"
    and s': "self' = self\<lparr>tffm_session := Some sess\<rparr>"
    by (auto simp: TFFeatureMapsReceptiveField_prepare_gradient_func_def Let_def tf_Graph_def
                   tf_placeholder_def
             split: prod.splits sum.splits)
  obtain grads masks shapes where st: "st = (grads, masks, shapes)"
    by (metis prod_cases3)
  from open_session_and_return_Inr [OF o [unfolded st]]
  have sess: "sess = \<lparr>sess_id = length ?w2, sess_graph = ?g\<rparr>"
    and cl: "cl = \<lparr>cl_input_tensor = ?inp, cl_receptive_field_masks = masks, cl_grads = grads\<rparr>"
    and gi: "GridShape_of_list [1, is_height ish, is_width ish, is_channels ish] = Inr gi"
    and gos: "gos = map GridShape_of_tuple shapes"
    and w': "w' = ?w2 @ [EvSession (length ?w2) ?g, EvRun (length ?w2) [VariablesInitializer ?g]]"
    and nc: "\<not> closed w' (length ?w2)"
    by auto
  from gi have gi': "gi = \<lparr>gs_n = 1, gs_height = is_height ish, gs_width = is_width ish,
                  gs_channels = is_channels ish\<rparr>"
    by (simp add: GridShape_of_list_def)
  from m l st gi' gos s' sess cl w' nc show ?thesis
    by auto
qed



lemma loop_shape_at:
  assumes f: "feature_maps_loop g inp outs ([], [], []) = Inr (grads, masks, shapes)"
    and i: "i < length outs"
    and s: "static_shape (outs ! i) = Some [Some n, Some h, Some wd, Some c]"
  shows "map GridShape_of_tuple shapes ! i =
           \<lparr>gs_n = 1, gs_height = h, gs_width = wd, gs_channels = 1\<rparr> \<and>
         masks ! i = Placeholder g ''grid'' i [1, h, wd, 1]"
proof -
  from s have "get_tensor_shape (outs ! i) = Inr [n, h, wd, c]"
    by (simp add: get_tensor_shape_def)
  with feature_maps_loop_start [OF f] i show ?thesis
    by (fastforce simp: GridShape_of_tuple_def)
qed

lemma resolved_output:
  assumes "map (get_operation_output0 ops g) names = map Inr outs" and "i < length names"
    and "ops (names ! i) = Some (sh # rest)"
  shows "outs ! i = ModelTensor g (names ! i) sh"
proof -
  from assms(1) have "length outs = length names"
    by (metis length_map)
  moreover from assms(1) have "map (get_operation_output0 ops g) names ! i = map Inr outs ! i"
    by simp
  ultimately have "get_operation_output0 ops g (names ! i) = Inr (outs ! i)"
    using assms(2) by simp
  with assms(3) show ?thesis
    by (auto simp: get_operation_output0_def split: if_splits)
qed

text \<open>
  Claim C7. After a successful \<^verbatim>\<open>_prepare_gradient_func\<close> of either class, if output tensor
  \<open>i\<close> has the static shape \<open>(n, h, w, c)\<close>, then the \<open>i\<close>-th returned output shape is
  \<open>(1, h, w, 1)\<close>, and the \<open>i\<close>-th mask placeholder is the placeholder \<^verbatim>\<open>grid\<close> number \<open>i\<close> of
  that shape, which is also its static shape.
\<close>

theorem output_shape_and_mask_shape:
  "(TFReceptiveField_prepare_gradient_func backend self ish iname onames w =
      (w', self', Inr (cl, gi, gos)) \<and>
    tfrf_model_func self ish = Inr ops \<and> i < length onames \<and>
    ops (onames ! i) = Some (Some [Some n, Some h, Some wd, Some c] # rest) \<longrightarrow>
    gos ! i = \<lparr>gs_n = 1, gs_height = h, gs_width = wd, gs_channels = 1\<rparr> \<and>
    static_shape (cl_receptive_field_masks cl ! i) = Some [Some 1, Some h, Some wd, Some 1] \<and>
    (\<exists>g. cl_receptive_field_masks cl ! i = Placeholder g ''grid'' i [1, h, wd, 1])) \<and>
   (TFFeatureMapsReceptiveField_prepare_gradient_func backend_fm self_fm ish_fm w_fm =
      (w_fm', self_fm', Inr (cl_fm, gi_fm, gos_fm)) \<and>
    tffm_model_func self_fm (cl_input_tensor cl_fm) = Inr fms \<and> j < length fms \<and>
    static_shape (fms ! j) = Some [Some n', Some h', Some wd', Some c'] \<longrightarrow>
    gos_fm ! j = \<lparr>gs_n = 1, gs_height = h', gs_width = wd', gs_channels = 1\<rparr> \<and>
    static_shape (cl_receptive_field_masks cl_fm ! j) = Some [Some 1, Some h', Some wd', Some 1] \<and>
    (\<exists>g. cl_receptive_field_masks cl_fm ! j = Placeholder g ''grid'' j [1, h', wd', 1]))"
proof (intro conjI impI; elim conjE)
  let ?g = "length (release_session (tfrf_session self) w)"
  assume a: "TFReceptiveField_prepare_gradient_func backend self ish iname onames w =
      (w', self', Inr (cl, gi, gos))"
    and m: "tfrf_model_func self ish = Inr ops" and i: "i < length onames"
    and o: "ops (onames ! i) = Some (Some [Some n, Some h, Some wd, Some c] # rest)"
  from tfrf_prepare_Inr [OF a] m obtain outs shapes where
    r: "map (get_operation_output0 ops ?g) onames = map Inr outs"
    and f: "feature_maps_loop ?g (cl_input_tensor cl) outs ([], [], []) =
              Inr (cl_grads cl, cl_receptive_field_masks cl, shapes)"
    and gos: "gos = map GridShape_of_tuple shapes"
    by auto
  from r have len: "length outs = length onames" by (metis length_map)
  from resolved_output [OF r i o]
  have "static_shape (outs ! i) = Some [Some n, Some h, Some wd, Some c]" by simp
  from loop_shape_at [OF f _ this] i len gos
  have 1: "gos ! i = \<lparr>gs_n = 1, gs_height = h, gs_width = wd, gs_channels = 1\<rparr>"
    and 2: "cl_receptive_field_masks cl ! i = Placeholder ?g ''grid'' i [1, h, wd, 1]"
    by simp_all
  show "gos ! i = \<lparr>gs_n = 1, gs_height = h, gs_width = wd, gs_channels = 1\<rparr>" by (rule 1)
  show "static_shape (cl_receptive_field_masks cl ! i) = Some [Some 1, Some h, Some wd, Some 1]"
    by (simp add: 2)
  show "\<exists>g. cl_receptive_field_masks cl ! i = Placeholder g ''grid'' i [1, h, wd, 1]"
    using 2 by blast
next
  let ?g = "length (release_session (tffm_session self_fm) w_fm)"
  assume a: "TFFeatureMapsReceptiveField_prepare_gradient_func backend_fm self_fm ish_fm w_fm =
      (w_fm', self_fm', Inr (cl_fm, gi_fm, gos_fm))"
    and m: "tffm_model_func self_fm (cl_input_tensor cl_fm) = Inr fms" and j: "j < length fms"
    and s: "static_shape (fms ! j) = Some [Some n', Some h', Some wd', Some c']"
  from tffm_prepare_Inr [OF a] m obtain shapes where
    f: "feature_maps_loop ?g (cl_input_tensor cl_fm) fms ([], [], []) =
              Inr (cl_grads cl_fm, cl_receptive_field_masks cl_fm, shapes)"
    and gos: "gos_fm = map GridShape_of_tuple shapes"
    by auto
  from loop_shape_at [OF f j s] gos
  have 1: "gos_fm ! j = \<lparr>gs_n = 1, gs_height = h', gs_width = wd', gs_channels = 1\<rparr>"
    and 2: "cl_receptive_field_masks cl_fm ! j = Placeholder ?g ''grid'' j [1, h', wd', 1]"
    by simp_all
  show "gos_fm ! j = \<lparr>gs_n = 1, gs_height = h', gs_width = wd', gs_channels = 1\<rparr>" by (rule 1)
  show "static_shape (cl_receptive_field_masks cl_fm ! j) = Some [Some 1, Some h', Some wd', Some 1]"
    by (simp add: 2)
  show "\<exists>g. cl_receptive_field_masks cl_fm ! j = Placeholder g ''grid'' j [1, h', wd', 1]"
    using 2 by blast
qed

subsection \<open>Evaluating the gradient function\<close>














subsection \<open>A gradient function from an earlier call\<close>











subsection \<open>Names that do not resolve\<close>







subsection \<open>The gradient of a feature map\<close>


subsection \<open>The example objects, evaluated\<close>

lemmas prepare_defs =
  TFReceptiveField_prepare_gradient_func_def TFFeatureMapsReceptiveField_prepare_gradient_func_def
  release_session_def tf_Graph_def tf_Session_def session_close_def tf_reset_default_graph_def
  get_operation_output0_def get_tensor_shape_def feature_map_step_def tf_placeholder_def
  tuple_list_def open_session_and_return_def session_run_def closed_def GridShape_of_list_def
  GridShape_of_tuple_def Let_def

lemmas example_defs =
  example_ops_def example_tfrf_def example_tffm_def example_image_shape_def example_backend_def
  example_closure_def example_closure_fm_def

text \<open>
  Preparing the example estimators in a fresh runtime. The input shape returned for the
  \<^verbatim>\<open>TFReceptiveField\<close> has the batch size two of the model's input tensor.
\<close>

lemma example_tfrf_prepare:
  "TFReceptiveField_prepare_gradient_func example_backend example_tfrf example_image_shape
     ''input'' [''conv''] [] =
   ([EvGraph 0, EvSession 1 0, EvRun 1 [VariablesInitializer 0]],
    example_tfrf\<lparr>tfrf_session := Some \<lparr>sess_id = 1, sess_graph = 0\<rparr>\<rparr>,
    Inr (example_closure,
         \<lparr>gs_n = 2, gs_height = 8, gs_width = 8, gs_channels = 3\<rparr>,
         [\<lparr>gs_n = 1, gs_height = 4, gs_width = 4, gs_channels = 1\<rparr>]))"
  by (simp add: prepare_defs example_defs)

lemma example_tffm_prepare:
  "TFFeatureMapsReceptiveField_prepare_gradient_func example_backend example_tffm
     example_image_shape [] =
   ([EvGraph 0, EvSession 1 0, EvRun 1 [VariablesInitializer 0]],
    example_tffm\<lparr>tffm_session := Some \<lparr>sess_id = 1, sess_graph = 0\<rparr>\<rparr>,
    Inr (example_closure_fm,
         \<lparr>gs_n = 1, gs_height = 8, gs_width = 8, gs_channels = 3\<rparr>,
         [\<lparr>gs_n = 1, gs_height = 4, gs_width = 4, gs_channels = 1\<rparr>,
          \<lparr>gs_n = 1, gs_height = 8, gs_width = 8, gs_channels = 1\<rparr>]))"
  by (simp add: prepare_defs example_defs)

text \<open>
  The gradient function of the second example, given the masks 10 and 20: the example
  engine returns for each gradient the value fed to its mask, so the values come back in
  the order of the feature maps, after a single \<^verbatim>\<open>run\<close>.
\<close>

lemma example_gradient_fn:
  "gradient_fn example_backend example_closure_fm (Some \<lparr>sess_id = 1, sess_graph = 0\<rparr>)
     [10, 20] 7 [EvGraph 0, EvSession 1 0, EvRun 1 [VariablesInitializer 0]] =
   ([EvGraph 0, EvSession 1 0, EvRun 1 [VariablesInitializer 0],
     EvRun 1 (cl_grads example_closure_fm)],
    Inr [10, 20])"
  by (simp add: gradient_fn_def session_run_def closed_def example_defs define_fm_gradient_def
        tf_reduce_mean_def tf_multiply_def tf_gradients_def AList.update.simps)

subsection \<open>The claims at the example objects\<close>








text \<open>
  Claim C6 for a client that prepares, evaluates and prepares again with a name that does
  not resolve, and for a client that prepares twice.
\<close>

theorem one_live_session_per_estimator_witness:
  "tfrf_session example_tfrf = None \<and> tffm_session example_tffm = None \<and>
   at_most_one_live
     (fst (tfrf_calls example_backend
             [CallPrepare example_image_shape ''input'' [''conv''],
              CallGradientFn example_closure [1] 0,
              CallPrepare example_image_shape ''input'' [''pool'']] ([], example_tfrf))) \<and>
   closed_before_created
     (fst (tfrf_calls example_backend
             [CallPrepare example_image_shape ''input'' [''conv''],
              CallGradientFn example_closure [1] 0,
              CallPrepare example_image_shape ''input'' [''pool'']] ([], example_tfrf))) \<and>
   at_most_one_live
     (fst (tffm_calls example_backend
             [CallPrepareFM example_image_shape, CallPrepareFM example_image_shape]
             ([], example_tffm))) \<and>
   closed_before_created
     (fst (tffm_calls example_backend
             [CallPrepareFM example_image_shape, CallPrepareFM example_image_shape]
             ([], example_tffm)))"
proof -
  have h1: "tfrf_session example_tfrf = None" by (simp add: example_tfrf_def)
  have h2: "tffm_session example_tffm = None" by (simp add: example_tffm_def)
  from one_live_session_per_estimator [THEN conjunct1, rule_format, OF h1]
       one_live_session_per_estimator [THEN conjunct2, rule_format, OF h2]
       h1 h2
  show ?thesis by blast
qed

text \<open>
  Claim C7 at the output \<^verbatim>\<open>conv\<close> of the first example and at the second feature map of the
  second, which is the input placeholder itself.
\<close>

theorem output_shape_and_mask_shape_witness:
  "(TFReceptiveField_prepare_gradient_func example_backend example_tfrf example_image_shape
      ''input'' [''conv''] [] =
    ([EvGraph 0, EvSession 1 0, EvRun 1 [VariablesInitializer 0]],
     example_tfrf\<lparr>tfrf_session := Some \<lparr>sess_id = 1, sess_graph = 0\<rparr>\<rparr>,
     Inr (example_closure,
          \<lparr>gs_n = 2, gs_height = 8, gs_width = 8, gs_channels = 3\<rparr>,
          [\<lparr>gs_n = 1, gs_height = 4, gs_width = 4, gs_channels = 1\<rparr>])) \<and>
    tfrf_model_func example_tfrf example_image_shape = Inr (example_ops example_image_shape) \<and>
    0 < length [''conv''] \<and>
    example_ops example_image_shape ([''conv''] ! 0) =
      Some (Some [Some 2, Some 4, Some 4, Some 16] # [])) \<and>
   [\<lparr>gs_n = 1, gs_height = 4, gs_width = 4, gs_channels = 1\<rparr>] ! 0 =
     \<lparr>gs_n = 1, gs_height = 4, gs_width = 4, gs_channels = 1\<rparr> \<and>
   static_shape (cl_receptive_field_masks example_closure ! 0) =
     Some [Some 1, Some 4, Some 4, Some 1] \<and>
   (TFFeatureMapsReceptiveField_prepare_gradient_func example_backend example_tffm
      example_image_shape [] =
    ([EvGraph 0, EvSession 1 0, EvRun 1 [VariablesInitializer 0]],
     example_tffm\<lparr>tffm_session := Some \<lparr>sess_id = 1, sess_graph = 0\<rparr>\<rparr>,
     Inr (example_closure_fm,
          \<lparr>gs_n = 1, gs_height = 8, gs_width = 8, gs_channels = 3\<rparr>,
          [\<lparr>gs_n = 1, gs_height = 4, gs_width = 4, gs_channels = 1\<rparr>,
           \<lparr>gs_n = 1, gs_height = 8, gs_width = 8, gs_channels = 1\<rparr>])) \<and>
    tffm_model_func example_tffm (cl_input_tensor example_closure_fm) =
      Inr [ModelTensor 0 ''conv'' (Some [Some 1, Some 4, Some 4, Some 16]),
           cl_input_tensor example_closure_fm] \<and>
    1 < length [ModelTensor 0 ''conv'' (Some [Some 1, Some 4, Some 4, Some 16]),
                cl_input_tensor example_closure_fm] \<and>
    static_shape ([ModelTensor 0 ''conv'' (Some [Some 1, Some 4, Some 4, Some 16]),
                   cl_input_tensor example_closure_fm] ! 1) =
      Some [Some 1, Some 8, Some 8, Some 3]) \<and>
   static_shape (cl_receptive_field_masks example_closure_fm ! 1) =
     Some [Some 1, Some 8, Some 8, Some 1]"
proof -
  have h1: "TFReceptiveField_prepare_gradient_func example_backend example_tfrf example_image_shape
      ''input'' [''conv''] [] =
    ([EvGraph 0, EvSession 1 0, EvRun 1 [VariablesInitializer 0]],
     example_tfrf\<lparr>tfrf_session := Some \<lparr>sess_id = 1, sess_graph = 0\<rparr>\<rparr>,
     Inr (example_closure,
          \<lparr>gs_n = 2, gs_height = 8, gs_width = 8, gs_channels = 3\<rparr>,
          [\<lparr>gs_n = 1, gs_height = 4, gs_width = 4, gs_channels = 1\<rparr>])) \<and>
    tfrf_model_func example_tfrf example_image_shape = Inr (example_ops example_image_shape) \<and>
    0 < length [''conv''] \<and>
    example_ops example_image_shape ([''conv''] ! 0) =
      Some (Some [Some 2, Some 4, Some 4, Some 16] # [])"
    using example_tfrf_prepare by (simp add: example_tfrf_def example_ops_def)
  have h2: "TFFeatureMapsReceptiveField_prepare_gradient_func example_backend example_tffm
      example_image_shape [] =
    ([EvGraph 0, EvSession 1 0, EvRun 1 [VariablesInitializer 0]],
     example_tffm\<lparr>tffm_session := Some \<lparr>sess_id = 1, sess_graph = 0\<rparr>\<rparr>,
     Inr (example_closure_fm,
          \<lparr>gs_n = 1, gs_height = 8, gs_width = 8, gs_channels = 3\<rparr>,
          [\<lparr>gs_n = 1, gs_height = 4, gs_width = 4, gs_channels = 1\<rparr>,
           \<lparr>gs_n = 1, gs_height = 8, gs_width = 8, gs_channels = 1\<rparr>])) \<and>
    tffm_model_func example_tffm (cl_input_tensor example_closure_fm) =
      Inr [ModelTensor 0 ''conv'' (Some [Some 1, Some 4, Some 4, Some 16]),
           cl_input_tensor example_closure_fm] \<and>
    1 < length [ModelTensor 0 ''conv'' (Some [Some 1, Some 4, Some 4, Some 16]),
                cl_input_tensor example_closure_fm] \<and>
    static_shape ([ModelTensor 0 ''conv'' (Some [Some 1, Some 4, Some 4, Some 16]),
                   cl_input_tensor example_closure_fm] ! 1) =
      Some [Some 1, Some 8, Some 8, Some 3]"
    using example_tffm_prepare by (simp add: example_tffm_def example_closure_fm_def)
  from output_shape_and_mask_shape [THEN conjunct1, rule_format, OF h1]
       output_shape_and_mask_shape [THEN conjunct2, rule_format, OF h2]
       h1 h2
  show ?thesis by simp
qed


end
